theory Spec2Isabelle
  imports Main
begin

section \<open>JavaScript strings\<close>

text \<open>
  A JavaScript string is a sequence of UTF-16 code units, and the regular expressions of
  the repository (none carries the \<open>u\<close> flag) test one code unit at a time. A string
  is therefore a list of code units, each a natural number; \<open>str\<close> reads an ASCII
  literal. \<open>length\<close> is the \<open>.length\<close> of the source.
\<close>

type_synonym jsstring = "nat list"

definition str :: "string \<Rightarrow> jsstring" where
  "str s = map of_char s"

text \<open>
  The characters \<open>String.prototype.trim\<close> strips and the class \<open>\s\<close> matches are the
  same set: TAB, LF, VT, FF, CR, SP, NBSP, U+1680, U+2000 to U+200A, LS, PS, U+202F,
  U+205F, U+3000 and the byte order mark.
\<close>

definition isWhiteSpace :: "nat \<Rightarrow> bool" where
  "isWhiteSpace c =
     (c = 9 \<or> c = 10 \<or> c = 11 \<or> c = 12 \<or> c = 13 \<or> c = 32 \<or> c = 160 \<or> c = 5760
      \<or> (8192 \<le> c \<and> c \<le> 8202) \<or> c = 8232 \<or> c = 8233 \<or> c = 8239 \<or> c = 8287
      \<or> c = 12288 \<or> c = 65279)"

definition isDigit :: "nat \<Rightarrow> bool" where
  "isDigit c = (48 \<le> c \<and> c \<le> 57)"

definition isUpper :: "nat \<Rightarrow> bool" where
  "isUpper c = (65 \<le> c \<and> c \<le> 90)"

definition isLower :: "nat \<Rightarrow> bool" where
  "isLower c = (97 \<le> c \<and> c \<le> 122)"

definition trim :: "jsstring \<Rightarrow> jsstring" where
  "trim s = rev (dropWhile isWhiteSpace (rev (dropWhile isWhiteSpace s)))"

text \<open>
  \<open>s.split(',')\<close>: the pieces between the commas (code unit 44); the empty string
  splits into one empty piece.
\<close>

fun splitComma :: "jsstring \<Rightarrow> jsstring list" where
  "splitComma [] = [[]]"
| "splitComma (c # cs) =
     (if c = 44 then [] # splitComma cs
      else (case splitComma cs of
              [] \<Rightarrow> [[c]]
            | p # ps \<Rightarrow> (c # p) # ps))"

text \<open>\<open>value.split(',').map(item => item.trim()).filter(item => item)\<close>\<close>

definition splitList :: "jsstring \<Rightarrow> jsstring list" where
  "splitList s = filter (\<lambda>item. item \<noteq> []) (map trim (splitComma s))"

text \<open>\<open>hay.includes(needle)\<close>: the needle occurs in the hay as a contiguous run.\<close>

fun startsWith :: "jsstring \<Rightarrow> jsstring \<Rightarrow> bool" where
  "startsWith hay [] = True"
| "startsWith [] (n # ns) = False"
| "startsWith (h # hs) (n # ns) = (h = n \<and> startsWith hs ns)"

fun includesStr :: "jsstring \<Rightarrow> jsstring \<Rightarrow> bool" where
  "includesStr [] needle = (needle = [])"
| "includesStr (h # hs) needle = (startsWith (h # hs) needle \<or> includesStr hs needle)"

text \<open>
  \<open>String.prototype.toLowerCase\<close> follows the Unicode case tables, which are no part
  of the repository: the functions that call it take it as the parameter \<open>toLowerCase\<close>,
  and the theorems about them hold for every such function. \<open>latin1Lower\<close> is the
  instance the examples run with; it agrees with JavaScript on ASCII and Latin-1.
\<close>

definition latin1LowerUnit :: "nat \<Rightarrow> nat" where
  "latin1LowerUnit c =
     (if isUpper c \<or> (192 \<le> c \<and> c \<le> 222 \<and> c \<noteq> 215) then c + 32 else c)"

definition latin1Lower :: "jsstring \<Rightarrow> jsstring" where
  "latin1Lower s = map latin1LowerUnit s"

section \<open>Field validators (utils/validation.ts)\<close>

text \<open>
  Each validator first returns false on a falsy argument (\<open>!mrn\<close>: the empty string),
  then trims and tests a regular expression. \<open>/^[0-9]{6}$/\<close> holds of exactly the
  strings of six digits.
\<close>

definition validateMRN :: "jsstring \<Rightarrow> bool" where
  "validateMRN mrn =
     (if mrn = [] then False
      else (let trimmed = trim mrn in length trimmed = 6 \<and> list_all isDigit trimmed))"

definition validateNPI :: "jsstring \<Rightarrow> bool" where
  "validateNPI npi =
     (if npi = [] then False
      else (let trimmed = trim npi in length trimmed = 10 \<and> list_all isDigit trimmed))"

text \<open>
  \<open>/^[A-Z][0-9]{2}\.?[0-9A-Z]*$/\<close>, with the class of the first character and the
  class of the tail as parameters: the \<open>i\<close> flag of \<open>validateICD10\<close> widens both to
  the lower-case letters, the regular expression of the order form does not.
\<close>

fun icd10Pattern :: "(nat \<Rightarrow> bool) \<Rightarrow> (nat \<Rightarrow> bool) \<Rightarrow> jsstring \<Rightarrow> bool" where
  "icd10Pattern letter alnum (a # b # c # rest) =
     (letter a \<and> isDigit b \<and> isDigit c \<and>
      (case rest of
         [] \<Rightarrow> True
       | d # rest' \<Rightarrow> (d = 46 \<and> list_all alnum rest') \<or> list_all alnum rest))"
| "icd10Pattern letter alnum s = False"

definition validateICD10 :: "jsstring \<Rightarrow> bool" where
  "validateICD10 code =
     (if code = [] then False
      else icd10Pattern (\<lambda>c. isUpper c \<or> isLower c)
             (\<lambda>c. isDigit c \<or> isUpper c \<or> isLower c) (trim code))"

text \<open>The class of \<open>validateName\<close>: \<open>a-z\<close>, \<open>A-Z\<close>, the range from U+00C0 to U+00FF (192 to
  255), \<open>\s\<close>, the apostrophe (39) and the hyphen (45).\<close>

definition nameClass :: "nat \<Rightarrow> bool" where
  "nameClass c =
     (isLower c \<or> isUpper c \<or> (192 \<le> c \<and> c \<le> 255) \<or> isWhiteSpace c \<or> c = 39 \<or> c = 45)"

definition validateName :: "jsstring \<Rightarrow> bool" where
  "validateName name =
     (if name = [] then False
      else (let trimmed = trim name in
            if length trimmed = 0 then False
            else (trimmed \<noteq> [] \<and> list_all nameClass trimmed) \<and> \<not> list_ex isDigit trimmed))"

definition validateRequiredField :: "jsstring \<Rightarrow> bool" where
  "validateRequiredField v = (v \<noteq> [] \<and> length (trim v) > 0)"

section \<open>Data model (types/index.ts)\<close>

text \<open>
  A point in time is a number of milliseconds, the resolution of a JavaScript
  \<open>Date\<close>. Fields a TypeScript interface marks optional (\<open>carePlan?: string\<close>) are
  options; \<open>None\<close> is a field the document does not have.
\<close>

type_synonym timestamp = int

record FormData =
  patientFirstName :: jsstring
  patientLastName :: jsstring
  patientMRN :: jsstring
  primaryDiagnosis :: jsstring
  referringProvider :: jsstring
  providerNPI :: jsstring
  medicationName :: jsstring
  additionalDiagnoses :: "jsstring list"
  medicationHistory :: "jsstring list"
  patientRecords :: jsstring

text \<open>
  The names of the eight required string fields, and \<open>formData[field]\<close>.
\<close>

datatype field =
    PatientFirstName | PatientLastName | PatientMRN | PrimaryDiagnosis
  | ReferringProvider | ProviderNPI | MedicationName | PatientRecords

fun fieldValue :: "FormData \<Rightarrow> field \<Rightarrow> jsstring" where
  "fieldValue formData PatientFirstName = patientFirstName formData"
| "fieldValue formData PatientLastName = patientLastName formData"
| "fieldValue formData PatientMRN = patientMRN formData"
| "fieldValue formData PrimaryDiagnosis = primaryDiagnosis formData"
| "fieldValue formData ReferringProvider = referringProvider formData"
| "fieldValue formData ProviderNPI = providerNPI formData"
| "fieldValue formData MedicationName = medicationName formData"
| "fieldValue formData PatientRecords = patientRecords formData"

text \<open>
  \<open>validateAllFields\<close> of utils/validation.ts: the mapping from field name to message,
  as the list of its entries in the order in which they are set.
\<close>

definition validateAllFields :: "FormData \<Rightarrow> (field \<times> jsstring) list" where
  "validateAllFields formData =
     (if \<not> validateRequiredField (patientFirstName formData) then
        [(PatientFirstName, str ''First name is required'')]
      else if \<not> validateName (patientFirstName formData) then
        [(PatientFirstName, str ''Invalid name format'')]
      else [])
     @ (if \<not> validateRequiredField (patientLastName formData) then
          [(PatientLastName, str ''Last name is required'')]
        else if \<not> validateName (patientLastName formData) then
          [(PatientLastName, str ''Invalid name format'')]
        else [])
     @ (if \<not> validateRequiredField (patientMRN formData) then
          [(PatientMRN, str ''MRN is required'')]
        else if \<not> validateMRN (patientMRN formData) then
          [(PatientMRN, str ''Must be exactly 6 digits'')]
        else [])
     @ (if \<not> validateRequiredField (primaryDiagnosis formData) then
          [(PrimaryDiagnosis, str ''Primary diagnosis is required'')]
        else if \<not> validateICD10 (primaryDiagnosis formData) then
          [(PrimaryDiagnosis, str ''Invalid ICD-10 format'')]
        else [])
     @ (if \<not> validateRequiredField (providerNPI formData) then
          [(ProviderNPI, str ''Provider NPI is required'')]
        else if \<not> validateNPI (providerNPI formData) then
          [(ProviderNPI, str ''Must be exactly 10 digits'')]
        else [])
     @ (if \<not> validateRequiredField (referringProvider formData) then
          [(ReferringProvider, str ''Referring provider is required'')]
        else [])
     @ (if \<not> validateRequiredField (medicationName formData) then
          [(MedicationName, str ''Medication name is required'')]
        else [])
     @ (if \<not> validateRequiredField (patientRecords formData) then
          [(PatientRecords, str ''Patient records are required'')]
        else [])"

datatype FeedbackType = Correction | Suggestion | Approval

datatype ApprovalStatus = Pending | CorrectionsPending | Approved

record PharmacistFeedback =
  feedbackId :: "jsstring option"
  f_timestamp :: "timestamp option"
  pharmacistName :: jsstring
  feedbackType :: FeedbackType
  sectionName :: jsstring
  originalText :: "jsstring option"
  correctedText :: "jsstring option"
  comment :: "jsstring option"
  approved :: bool

record CorrectionHistory =
  c_timestamp :: "timestamp option"
  c_feedbackId :: "jsstring option"
  c_pharmacistName :: jsstring
  c_sectionName :: jsstring
  change :: jsstring
  before :: "jsstring option"
  after :: "jsstring option"

text \<open>An entry of \<open>Order.history\<close>; its fields carry the prefix \<open>h_\<close>.\<close>

record HistoryEntry =
  h_timestamp :: timestamp
  h_additionalDiagnoses :: "jsstring list"
  h_medicationHistory :: "jsstring list"
  h_patientRecords :: jsstring
  h_carePlan :: jsstring

text \<open>
  \<open>interface Order extends FormData\<close>. The document identifier is kept beside the
  document, as Firestore does, and not in it.
\<close>

record Order = FormData +
  carePlan :: "jsstring option"
  timestamp :: "timestamp option"
  lastUpdated :: "timestamp option"
  approvalStatus :: "ApprovalStatus option"
  pharmacistFeedback :: "PharmacistFeedback list option"
  correctionHistory :: "CorrectionHistory list option"
  finalApprovedCarePlan :: "jsstring option"
  history :: "HistoryEntry list option"

datatype WarningType = PatientWarning | OrderWarning | ProviderWarning

datatype Severity = SevError | SevWarning

record Warning =
  w_type :: WarningType
  message :: jsstring
  severity :: Severity

section \<open>The document store\<close>

text \<open>
  A collection is the list of its documents with their identifiers, in the order in
  which the store returns them to a query. \<open>whereDocs\<close> is
  \<open>getDocs(query(collection, where(...)))\<close> for a conjunction of equality filters,
  \<open>addDoc\<close> stores a document under the identifier the store generates for it (a
  parameter here), \<open>updateDoc\<close> patches the document with the given identifier and
  fails when there is none.
\<close>

type_synonym docId = string

type_synonym 'a collection = "(docId \<times> 'a) list"

definition whereDocs :: "('a \<Rightarrow> bool) \<Rightarrow> 'a collection \<Rightarrow> 'a collection" where
  "whereDocs p c = filter (\<lambda>(i, d). p d) c"

definition addDoc :: "'a collection \<Rightarrow> docId \<Rightarrow> 'a \<Rightarrow> 'a collection" where
  "addDoc c newId d = c @ [(newId, d)]"

definition updateDoc :: "'a collection \<Rightarrow> docId \<Rightarrow> ('a \<Rightarrow> 'a) \<Rightarrow> 'a collection option" where
  "updateDoc c i f =
     (case map_of c i of
        None \<Rightarrow> None
      | Some old \<Rightarrow> Some (map (\<lambda>(j, d). if j = i then (j, f d) else (j, d)) c))"

definition getDoc :: "'a collection \<Rightarrow> docId \<Rightarrow> 'a option" where
  "getDoc c i = map_of c i"

text \<open>
  The field transform \<open>increment(n)\<close>: added to the stored number, and the number itself
  where the document has no such field.
\<close>

definition increment :: "int \<Rightarrow> int option \<Rightarrow> int option" where
  "increment n old = (case old of None \<Rightarrow> Some n | Some v \<Rightarrow> Some (v + n))"

text \<open>
  The documents of the \<open>patients\<close> and \<open>providers\<close> collections. A patient document
  is only ever written whole (\<open>updatePatientMaster\<close>); a provider document is also
  written with a single field (\<open>submitOrder\<close>), so its fields are options.
\<close>

record Patient =
  mrn :: jsstring
  firstName :: jsstring
  lastName :: jsstring
  p_lastUpdated :: timestamp
  totalOrders :: int

record Provider =
  name :: "jsstring option"
  npi :: "jsstring option"
  firstOrderDate :: "timestamp option"
  orderCount :: "int option"

record Database =
  orders :: "Order collection"
  patients :: "Patient collection"
  providers :: "Provider collection"

section \<open>The care plan service (services/api.ts)\<close>

text \<open>
  What \<open>axios.post\<close> does with a request: a response with its \<open>data.carePlan\<close>, an
  error response with its status and \<open>data.error\<close>, no response at all, or an error
  raised before the request left, with its message. The backend is the parameter
  \<open>post\<close>. \<open>generateCarePlan\<close> returns the plan or throws an \<open>Error\<close>, here \<open>Inl\<close>
  of its message.
\<close>

datatype HttpResult =
    Responded "jsstring option"
  | ErrorStatus nat "jsstring option"
  | NoResponse
  | RequestError "jsstring option"

text \<open>\<open>v || d\<close> for an optional string: undefined and the empty string are falsy.\<close>

definition orElse :: "jsstring option \<Rightarrow> jsstring \<Rightarrow> jsstring" where
  "orElse v d = (case v of None \<Rightarrow> d | Some s \<Rightarrow> if s = [] then d else s)"

fun decimal :: "nat \<Rightarrow> jsstring" where
  "decimal n = (if n < 10 then [48 + n] else decimal (n div 10) @ [48 + n mod 10])"

declare decimal.simps [simp del]

definition generateCarePlan :: "(FormData \<Rightarrow> HttpResult) \<Rightarrow> FormData \<Rightarrow> jsstring + jsstring" where
  "generateCarePlan post formData =
     (case post formData of
        Responded plan \<Rightarrow>
          (if orElse plan [] = [] then Inl (str ''Invalid response format from server'')
           else Inr (orElse plan []))
      | ErrorStatus status err \<Rightarrow>
          (if status = 401 \<or> status = 403 then
             Inl (str ''Authentication error. Please check the backend server API key configuration.'')
           else if status = 400 then
             Inl (str ''Invalid request data: '' @ orElse err (str ''Please check all required fields''))
           else
             Inl (str ''API request failed with status '' @ decimal status @ str '': ''
                  @ orElse err (str ''Unknown error'')))
      | NoResponse \<Rightarrow>
          Inl (str ''Cannot connect to API server. Make sure the backend server is running.'')
      | RequestError msg \<Rightarrow> Inl (orElse msg (str ''Unknown error occurred'')))"

section \<open>Order entry (components/OrderEntry.tsx)\<close>

subsection \<open>checkDuplicates\<close>

text \<open>
  The three guarded blocks of \<open>checkDuplicates\<close>, in the order of the source. Each
  identity check reads \<open>docs[0]\<close> of its query and nothing else of the result.
\<close>

definition patientChecks :: "(jsstring \<Rightarrow> jsstring) \<Rightarrow> Order collection \<Rightarrow> FormData \<Rightarrow> Warning list" where
  "patientChecks toLowerCase ords formData =
     (if patientMRN formData \<noteq> [] \<and> length (patientMRN formData) = 6
         \<and> patientFirstName formData \<noteq> [] \<and> patientLastName formData \<noteq> [] then
        (case whereDocs (\<lambda>d. patientMRN d = patientMRN formData) ords of
           [] \<Rightarrow> []
         | (i, existingOrder) # rest \<Rightarrow>
             if toLowerCase (patientFirstName existingOrder) \<noteq> toLowerCase (patientFirstName formData)
                \<or> toLowerCase (patientLastName existingOrder) \<noteq> toLowerCase (patientLastName formData)
             then [\<lparr>w_type = PatientWarning,
                    message = str ''MRN MISMATCH: This MRN is already registered to a different patient. Please verify the MRN is correct for this patient.'',
                    severity = SevError\<rparr>]
             else [])
        @
        (case whereDocs (\<lambda>d. patientFirstName d = patientFirstName formData
                             \<and> patientLastName d = patientLastName formData) ords of
           [] \<Rightarrow> []
         | (i, existingOrder) # rest \<Rightarrow>
             if patientMRN existingOrder \<noteq> patientMRN formData
             then [\<lparr>w_type = PatientWarning,
                    message = str ''PATIENT NAME MISMATCH: This patient name is already registered with a different MRN. Please verify the patient information is correct.'',
                    severity = SevError\<rparr>]
             else [])
      else [])"

text \<open>
  The warning for an exact duplicate names the date of the order found;
  \<open>toLocaleDateString\<close> formats a date for the browser's locale and is a parameter.
\<close>

definition duplicateWarning :: "(timestamp \<Rightarrow> jsstring) \<Rightarrow> Order \<Rightarrow> Warning" where
  "duplicateWarning toLocaleDateString matchData =
     (let dateStr = (case timestamp matchData of
                       None \<Rightarrow> str ''Unknown date''
                     | Some orderDate \<Rightarrow> toLocaleDateString orderDate)
      in \<lparr>w_type = OrderWarning,
          message = str ''POTENTIAL DUPLICATE: A similar order exists from '' @ dateStr
                    @ str ''. You'll be prompted to update or create new when submitting.'',
          severity = SevWarning\<rparr>)"

definition duplicateOrderCheck :: "(timestamp \<Rightarrow> jsstring) \<Rightarrow> Order collection \<Rightarrow> FormData \<Rightarrow> Warning list" where
  "duplicateOrderCheck toLocaleDateString ords formData =
     (if patientMRN formData \<noteq> [] \<and> medicationName formData \<noteq> []
         \<and> primaryDiagnosis formData \<noteq> [] \<and> providerNPI formData \<noteq> []
         \<and> length (patientMRN formData) = 6 \<and> length (providerNPI formData) = 10 then
        (let orderSnapshot =
               whereDocs (\<lambda>d. patientMRN d = patientMRN formData
                               \<and> medicationName d = medicationName formData) ords
         in if orderSnapshot \<noteq> [] then
              (case find (\<lambda>(i, d). primaryDiagnosis d = primaryDiagnosis formData
                                   \<and> providerNPI d = providerNPI formData) orderSnapshot of
                 None \<Rightarrow> []
               | Some (i, matchData) \<Rightarrow> [duplicateWarning toLocaleDateString matchData])
            else [])
      else [])"

text \<open>
  The provider block. \<open>existingName.toLowerCase()\<close> throws on a provider document
  without a name; the \<open>catch\<close> of \<open>checkDuplicates\<close> then logs the error and
  \<open>setWarnings\<close> is never reached: the result \<open>None\<close>.
\<close>

definition providerChecks :: "(jsstring \<Rightarrow> jsstring) \<Rightarrow> Provider collection \<Rightarrow> FormData \<Rightarrow> Warning list option" where
  "providerChecks toLowerCase provs formData =
     (if referringProvider formData \<noteq> [] \<and> providerNPI formData \<noteq> []
         \<and> length (providerNPI formData) = 10 then
        (let byName =
               (case whereDocs (\<lambda>p. name p = Some (referringProvider formData)) provs of
                  [] \<Rightarrow> []
                | (i, existing) # rest \<Rightarrow>
                    if npi existing \<noteq> Some (providerNPI formData)
                    then [\<lparr>w_type = ProviderWarning,
                           message = str ''NPI MISMATCH: This provider name is already registered with a different NPI. Please verify the NPI is correct for this provider.'',
                           severity = SevError\<rparr>]
                    else [])
         in (case whereDocs (\<lambda>p. npi p = Some (providerNPI formData)) provs of
               [] \<Rightarrow> Some byName
             | (i, existing) # rest \<Rightarrow>
                 (case name existing of
                    None \<Rightarrow> None
                  | Some existingName \<Rightarrow>
                      Some (byName @
                        (if toLowerCase existingName \<noteq> toLowerCase (referringProvider formData)
                         then [\<lparr>w_type = ProviderWarning,
                                message = str ''PROVIDER NAME MISMATCH: This NPI is already registered to a different provider. Please verify the provider name is correct for this NPI.'',
                                severity = SevError\<rparr>]
                         else [])))))
      else Some [])"

text \<open>
  The value \<open>checkDuplicates\<close> passes to \<open>setWarnings\<close>; \<open>None\<close> when it returns
  without setting it (no database handle, or the exception above).
\<close>

definition checkDuplicates :: "(jsstring \<Rightarrow> jsstring) \<Rightarrow> (timestamp \<Rightarrow> jsstring) \<Rightarrow> Database option \<Rightarrow> FormData \<Rightarrow> Warning list option" where
  "checkDuplicates toLowerCase toLocaleDateString dbo formData =
     (case dbo of
        None \<Rightarrow> None
      | Some db \<Rightarrow>
          (case providerChecks toLowerCase (providers db) formData of
             None \<Rightarrow> None
           | Some providerWarnings \<Rightarrow>
               Some (patientChecks toLowerCase (orders db) formData
                     @ duplicateOrderCheck toLocaleDateString (orders db) formData
                     @ providerWarnings)))"

subsection \<open>validateField and handleSubmit\<close>

text \<open>
  The form's own validator. Only the first test trims; the regular expressions run on
  the value as typed, the one for names is \<open>/^[A-Za-z\s'-]+$/\<close> and the one for the
  diagnosis has no \<open>i\<close> flag. The result is the error message, empty for none.
\<close>

definition formNameClass :: "nat \<Rightarrow> bool" where
  "formNameClass c = (isUpper c \<or> isLower c \<or> isWhiteSpace c \<or> c = 39 \<or> c = 45)"

definition validateField :: "field \<Rightarrow> jsstring \<Rightarrow> jsstring" where
  "validateField fname v =
     (if trim v = [] then str ''This field is required''
      else if (fname = PatientFirstName \<or> fname = PatientLastName)
              \<and> \<not> (v \<noteq> [] \<and> list_all formNameClass v) then
        str ''Name must contain only letters, spaces, hyphens, or apostrophes''
      else if fname = PatientMRN \<and> \<not> (length v = 6 \<and> list_all isDigit v) then
        str ''Must be exactly 6 digits''
      else if fname = PrimaryDiagnosis
              \<and> \<not> icd10Pattern isUpper (\<lambda>c. isDigit c \<or> isUpper c) v then
        str ''Invalid ICD-10 format''
      else if fname = ProviderNPI \<and> \<not> (length v = 10 \<and> list_all isDigit v) then
        str ''Must be exactly 10 digits''
      else [])"

definition requiredFields :: "field list" where
  "requiredFields =
     [PatientFirstName, PatientLastName, PatientMRN, PrimaryDiagnosis,
      ReferringProvider, ProviderNPI, MedicationName, PatientRecords]"

text \<open>\<open>newErrors\<close> of \<open>handleSubmit\<close>: the fields with an error, each with its message.\<close>

definition formErrors :: "FormData \<Rightarrow> (field \<times> jsstring) list" where
  "formErrors formData =
     concat (map (\<lambda>f. let error = validateField f (fieldValue formData f)
                       in if error \<noteq> [] then [(f, error)] else []) requiredFields)"

definition checkForExactDuplicate :: "Database option \<Rightarrow> FormData \<Rightarrow> (docId \<times> Order) option" where
  "checkForExactDuplicate dbo formData =
     (case dbo of
        None \<Rightarrow> None
      | Some db \<Rightarrow>
          (let orderSnapshot =
                 whereDocs (\<lambda>d. patientMRN d = patientMRN formData
                                 \<and> medicationName d = medicationName formData) (orders db)
           in if orderSnapshot \<noteq> [] then
                find (\<lambda>(i, d). primaryDiagnosis d = primaryDiagnosis formData
                                \<and> providerNPI d = providerNPI formData) orderSnapshot
              else None))"

subsection \<open>submitOrder and updatePatientMaster\<close>

text \<open>
  The document \<open>submitOrder\<close> adds to \<open>orders\<close>: the form's fields, the plan, the
  server's time and an empty history, and no other field.
\<close>

definition newOrder :: "FormData \<Rightarrow> jsstring \<Rightarrow> timestamp \<Rightarrow> Order" where
  "newOrder formData generatedCarePlan now =
     FormData.extend formData
       (Order.fields (Some generatedCarePlan) (Some now) None None None None None (Some []))"

text \<open>
  \<open>updatePatientMaster\<close> swallows its errors; it is only called where the database
  handle is there. \<open>newId\<close> is the identifier of the patient document it may add.
\<close>

definition updatePatientMaster :: "timestamp \<Rightarrow> docId \<Rightarrow> FormData \<Rightarrow> jsstring \<Rightarrow> Database \<Rightarrow> Database" where
  "updatePatientMaster now newId formData mrn' db =
     (case whereDocs (\<lambda>p. mrn p = mrn') (patients db) of
        [] \<Rightarrow>
          db\<lparr>patients := addDoc (patients db) newId
                \<lparr>mrn = patientMRN formData, firstName = patientFirstName formData,
                 lastName = patientLastName formData, p_lastUpdated = now, totalOrders = 1\<rparr>\<rparr>
      | (i, patientDoc) # rest \<Rightarrow>
          (case updateDoc (patients db) i
                  (\<lambda>p. p\<lparr>p_lastUpdated := now, totalOrders := totalOrders p + 1\<rparr>) of
             None \<Rightarrow> db
           | Some ps \<Rightarrow> db\<lparr>patients := ps\<rparr>))"

text \<open>
  The block of \<open>submitOrder\<close> under \<open>if (db)\<close>. The three identifiers are those the
  store generates for the order, the patient and the provider document. In the branch
  for a known provider the source calls \<open>addDoc\<close> with the single field
  \<open>orderCount: increment(1)\<close>; \<open>providerDoc\<close> is not used.
\<close>

definition saveOrder :: "timestamp \<Rightarrow> docId \<Rightarrow> docId \<Rightarrow> docId \<Rightarrow> FormData \<Rightarrow> jsstring \<Rightarrow> Database \<Rightarrow> Database" where
  "saveOrder now orderId patientId providerId formData generatedCarePlan db =
     (let db1 = db\<lparr>orders := addDoc (orders db) orderId (newOrder formData generatedCarePlan now)\<rparr>;
          db2 = updatePatientMaster now patientId formData (patientMRN formData) db1
      in (case whereDocs (\<lambda>p. npi p = Some (providerNPI formData)) (providers db2) of
            [] \<Rightarrow>
              db2\<lparr>providers := addDoc (providers db2) providerId
                     \<lparr>name = Some (referringProvider formData), npi = Some (providerNPI formData),
                      firstOrderDate = Some now, orderCount = Some 1\<rparr>\<rparr>
          | providerDoc # rest \<Rightarrow>
              db2\<lparr>providers := addDoc (providers db2) providerId
                     \<lparr>name = None, npi = None, firstOrderDate = None,
                      orderCount = increment 1 None\<rparr>\<rparr>))"

text \<open>
  What a \<open>catch\<close> block receives: an \<open>Error\<close> thrown by services/api.ts with its
  message, or an exception of the store's client library.
\<close>

datatype Failure = ServiceError jsstring | StoreError

datatype SubmitOutcome =
    ValidationAborted "(field \<times> jsstring) list"
  | SubmissionBlocked "Warning list"
  | DuplicatePrompt "docId \<times> Order"
  | OrderSaved jsstring
  | SubmitFailed Failure

definition submitOrder :: "(FormData \<Rightarrow> HttpResult) \<Rightarrow> timestamp \<Rightarrow> docId \<Rightarrow> docId \<Rightarrow> docId \<Rightarrow> Database option \<Rightarrow> FormData \<Rightarrow> SubmitOutcome \<times> Database option" where
  "submitOrder post now orderId patientId providerId dbo formData =
     (case generateCarePlan post formData of
        Inl msg \<Rightarrow> (SubmitFailed (ServiceError msg), dbo)
      | Inr generatedCarePlan \<Rightarrow>
          (OrderSaved generatedCarePlan,
           map_option (saveOrder now orderId patientId providerId formData generatedCarePlan) dbo))"

text \<open>
  \<open>handleSubmit\<close>: the outcome and the database afterwards. \<open>warnings\<close> is the
  component's state, as the last \<open>checkDuplicates\<close> left it.
\<close>

definition handleSubmit :: "(FormData \<Rightarrow> HttpResult) \<Rightarrow> timestamp \<Rightarrow> docId \<Rightarrow> docId \<Rightarrow> docId \<Rightarrow> Database option \<Rightarrow> Warning list \<Rightarrow> FormData \<Rightarrow> SubmitOutcome \<times> Database option" where
  "handleSubmit post now orderId patientId providerId dbo warnings formData =
     (let newErrors = formErrors formData in
      if length newErrors > 0 then (ValidationAborted newErrors, dbo)
      else
        (let blockingErrors = filter (\<lambda>w. severity w = SevError) warnings in
         if length blockingErrors > 0 then (SubmissionBlocked blockingErrors, dbo)
         else
           (case checkForExactDuplicate dbo formData of
              Some duplicateCheck \<Rightarrow> (DuplicatePrompt duplicateCheck, dbo)
            | None \<Rightarrow> submitOrder post now orderId patientId providerId dbo formData)))"

subsection \<open>handleSubmitUpdate\<close>

record UpdateFields =
  u_additionalDiagnoses :: jsstring
  u_medicationHistory :: jsstring
  u_patientRecords :: jsstring

datatype UpdateOutcome =
    UpdateIgnored
  | RecordUpdated jsstring
  | UpdateFailed Failure

text \<open>
  \<open>duplicateFound\<close> is the component's state: the identifier and the data of the
  order \<open>checkForExactDuplicate\<close> found; \<open>clientNow\<close> is \<open>Timestamp.now()\<close> and
  \<open>serverNow\<close> the value of \<open>serverTimestamp()\<close>. The plan is generated before
  anything is written, and an exception of \<open>generateCarePlan\<close> or \<open>updateDoc\<close> leaves
  through the \<open>catch\<close>. In the snapshot, \<open>x || []\<close> and \<open>x || ''\<close> change nothing on a
  list or a string that is there; the plan and the history are optional fields, and an
  absent one is read as empty.
\<close>

definition historyEntryOf :: "timestamp \<Rightarrow> Order \<Rightarrow> HistoryEntry" where
  "historyEntryOf clientNow existingData =
     \<lparr>h_timestamp = clientNow,
      h_additionalDiagnoses = additionalDiagnoses existingData,
      h_medicationHistory = medicationHistory existingData,
      h_patientRecords = patientRecords existingData,
      h_carePlan = orElse (carePlan existingData) []\<rparr>"

text \<open>\<open>updatedFormData\<close>: the form with the three fields of the update form in place.\<close>

definition mergeUpdate :: "FormData \<Rightarrow> UpdateFields \<Rightarrow> FormData" where
  "mergeUpdate formData updateFields =
     formData\<lparr>additionalDiagnoses := splitList (u_additionalDiagnoses updateFields),
              medicationHistory := splitList (u_medicationHistory updateFields),
              patientRecords := u_patientRecords updateFields\<rparr>"

definition handleSubmitUpdate :: "(FormData \<Rightarrow> HttpResult) \<Rightarrow> timestamp \<Rightarrow> timestamp \<Rightarrow> docId \<Rightarrow> Database option \<Rightarrow> FormData \<Rightarrow> (docId \<times> Order) option \<Rightarrow> UpdateFields \<Rightarrow> UpdateOutcome \<times> Database option" where
  "handleSubmitUpdate post clientNow serverNow patientId dbo formData duplicateFound updateFields =
     (case (dbo, duplicateFound) of
        (None, _) \<Rightarrow> (UpdateIgnored, dbo)
      | (Some db, None) \<Rightarrow> (UpdateIgnored, dbo)
      | (Some db, Some (dupId, existingData)) \<Rightarrow>
          (let updatedAdditionalDiagnoses = splitList (u_additionalDiagnoses updateFields);
               updatedMedicationHistory = splitList (u_medicationHistory updateFields);
               historyEntry = historyEntryOf clientNow existingData;
               updatedFormData = mergeUpdate formData updateFields
           in (case generateCarePlan post updatedFormData of
                 Inl msg \<Rightarrow> (UpdateFailed (ServiceError msg), dbo)
               | Inr newCarePlan \<Rightarrow>
                   (case updateDoc (orders db) dupId
                           (\<lambda>d. d\<lparr>additionalDiagnoses := updatedAdditionalDiagnoses,
                                   medicationHistory := updatedMedicationHistory,
                                   patientRecords := u_patientRecords updateFields,
                                   carePlan := Some newCarePlan,
                                   lastUpdated := Some serverNow,
                                   history := Some ((case history existingData of
                                                       None \<Rightarrow> []
                                                     | Some h \<Rightarrow> h) @ [historyEntry])\<rparr>) of
                      None \<Rightarrow> (UpdateFailed StoreError, dbo)
                    | Some orders' \<Rightarrow>
                        (RecordUpdated newCarePlan,
                         Some (updatePatientMaster serverNow patientId formData
                                 (patientMRN formData) (db\<lparr>orders := orders'\<rparr>)))))))"

section \<open>Pharmacist review (components/PharmacistReview.tsx)\<close>

text \<open>
  The listing of pending orders asks for \<open>where('approvalStatus', '!=', 'approved')\<close>.
  The store answers an inequality filter with the documents that have the field, with
  another value. The result is the value passed to \<open>setOrders\<close>. The store sorts the
  answer to an inequality filter by the filtered field; the model keeps the order of the
  collection, and only which orders are listed is used below.
\<close>

definition fetchPendingOrders :: "Database option \<Rightarrow> Order collection option" where
  "fetchPendingOrders dbo =
     map_option
       (\<lambda>db. whereDocs (\<lambda>d. case approvalStatus d of
                                None \<Rightarrow> False
                              | Some status \<Rightarrow> status \<noteq> Approved) (orders db)) dbo"

fun feedbackTypeName :: "FeedbackType \<Rightarrow> jsstring" where
  "feedbackTypeName Correction = str ''correction''"
| "feedbackTypeName Suggestion = str ''suggestion''"
| "feedbackTypeName Approval = str ''approval''"

definition correctionEntry :: "PharmacistFeedback \<Rightarrow> CorrectionHistory" where
  "correctionEntry f =
     \<lparr>c_timestamp = f_timestamp f,
      c_feedbackId = feedbackId f,
      c_pharmacistName = pharmacistName f,
      c_sectionName = sectionName f,
      change = (if orElse (correctedText f) [] \<noteq> []
                then str ''Updated '' @ sectionName f @ str '': ''
                     @ orElse (comment f) (str ''Manual correction'')
                else orElse (comment f)
                       (feedbackTypeName (feedbackType f) @ str '' on '' @ sectionName f)),
      before = originalText f,
      after = correctedText f\<rparr>"

text \<open>
  \<open>handleAddFeedback\<close> appends the item of the feedback form to the component's list of
  feedback items, unless the section name or the pharmacist's name is missing. It sets
  every property of the item; \<open>text || undefined\<close> makes the value of an optional text
  that was left empty \<open>undefined\<close>. \<open>now\<close> is the reading of the clock
  (\<open>Date.now()\<close>, \<open>new Date()\<close>).
\<close>

record NewFeedback =
  n_sectionName :: jsstring
  n_feedbackType :: FeedbackType
  n_originalText :: jsstring
  n_correctedText :: jsstring
  n_comment :: jsstring
  n_approved :: bool

definition orUndefined :: "jsstring \<Rightarrow> jsstring option" where
  "orUndefined s = (if s = [] then None else Some s)"

definition handleAddFeedback :: "timestamp \<Rightarrow> jsstring \<Rightarrow> NewFeedback \<Rightarrow> PharmacistFeedback list \<Rightarrow> PharmacistFeedback list" where
  "handleAddFeedback now pharmacist newFeedback feedback =
     (if n_sectionName newFeedback = [] \<or> pharmacist = [] then feedback
      else feedback @
        [\<lparr>feedbackId = Some (str ''feedback_'' @ decimal (nat now)),
          f_timestamp = Some now,
          pharmacistName = pharmacist,
          feedbackType = n_feedbackType newFeedback,
          sectionName = n_sectionName newFeedback,
          originalText = orUndefined (n_originalText newFeedback),
          correctedText = orUndefined (n_correctedText newFeedback),
          comment = orUndefined (n_comment newFeedback),
          approved = n_approved newFeedback\<rparr>])"

text \<open>
  The database handle is \<open>getFirestore(app)\<close> with its default settings, under which
  the store's client library refuses data that holds \<open>undefined\<close> as the value of a
  property, also inside the elements of an array: \<open>updateDoc\<close> throws before anything is
  written. The feedback items of the component's state are those \<open>handleAddFeedback\<close>
  built, so an optional field that is \<open>None\<close> is a property whose value is
  \<open>undefined\<close>. Both review actions write the list of feedback items, and
  \<open>handleSubmitFeedback\<close> copies identifier, timestamp, original and corrected text of
  every item into the correction history as well.
\<close>

definition hasUndefined :: "PharmacistFeedback \<Rightarrow> bool" where
  "hasUndefined f =
     (feedbackId f = None \<or> f_timestamp f = None \<or> originalText f = None
      \<or> correctedText f = None \<or> comment f = None)"

datatype ReviewOutcome =
    ReviewAlert jsstring
  | FeedbackSubmitted
  | PlanAccepted
  | ReviewFailed Failure

text \<open>
  \<open>selectedOrder\<close> is the component's state: an order as the listing fetched it, with
  its identifier (empty for none). \<open>handleSubmitFeedback\<close> does not test the database
  handle; without one \<open>doc(db, ...)\<close> throws. Every exception of the store leaves through
  the \<open>catch\<close>, with nothing written.
\<close>

definition handleSubmitFeedback :: "timestamp \<Rightarrow> Database option \<Rightarrow> (docId \<times> Order) option \<Rightarrow> jsstring \<Rightarrow> PharmacistFeedback list \<Rightarrow> ReviewOutcome \<times> Database option" where
  "handleSubmitFeedback serverNow dbo selectedOrder pharmacist feedback =
     (case selectedOrder of
        None \<Rightarrow> (ReviewAlert (str ''Please select an order and enter pharmacist name''), dbo)
      | Some (selectedId, selected) \<Rightarrow>
          if selectedId = [] \<or> pharmacist = [] then
            (ReviewAlert (str ''Please select an order and enter pharmacist name''), dbo)
          else if length feedback = 0 then
            (ReviewAlert (str ''Please add at least one feedback item''), dbo)
          else
            (let allApproved = list_all approved feedback;
                 status = (if allApproved then Approved else CorrectionsPending);
                 newEntries = map correctionEntry feedback
             in (case dbo of
                   None \<Rightarrow> (ReviewFailed StoreError, dbo)
                 | Some db \<Rightarrow>
                     if list_ex hasUndefined feedback then (ReviewFailed StoreError, dbo)
                     else
                       (case updateDoc (orders db) selectedId
                               (\<lambda>d. d\<lparr>approvalStatus := Some status,
                                       pharmacistFeedback := Some feedback,
                                       correctionHistory :=
                                         Some ((case correctionHistory selected of
                                                  None \<Rightarrow> []
                                                | Some h \<Rightarrow> h) @ newEntries),
                                       lastUpdated := Some serverNow\<rparr>) of
                          None \<Rightarrow> (ReviewFailed StoreError, dbo)
                        | Some orders' \<Rightarrow> (FeedbackSubmitted, Some (db\<lparr>orders := orders'\<rparr>))))))"

definition handleAcceptImprovedPlan :: "timestamp \<Rightarrow> Database option \<Rightarrow> (docId \<times> Order) option \<Rightarrow> jsstring option \<Rightarrow> PharmacistFeedback list \<Rightarrow> ReviewOutcome \<times> Database option" where
  "handleAcceptImprovedPlan serverNow dbo selectedOrder improvedCarePlan feedback =
     (case selectedOrder of
        None \<Rightarrow> (ReviewAlert (str ''No improved care plan to accept''), dbo)
      | Some (selectedId, selected) \<Rightarrow>
          if selectedId = [] \<or> orElse improvedCarePlan [] = [] then
            (ReviewAlert (str ''No improved care plan to accept''), dbo)
          else
            (case dbo of
               None \<Rightarrow> (ReviewFailed StoreError, dbo)
             | Some db \<Rightarrow>
                 if list_ex hasUndefined feedback then (ReviewFailed StoreError, dbo)
                 else
                   (case updateDoc (orders db) selectedId
                           (\<lambda>d. d\<lparr>carePlan := Some (orElse improvedCarePlan []),
                                   pharmacistFeedback := Some feedback,
                                   approvalStatus := Some Approved,
                                   lastUpdated := Some serverNow\<rparr>) of
                      None \<Rightarrow> (ReviewFailed StoreError, dbo)
                    | Some orders' \<Rightarrow> (PlanAccepted, Some (db\<lparr>orders := orders'\<rparr>)))))"

section \<open>Export (components/ExportData.tsx)\<close>

text \<open>
  The value of a date input is empty (\<open>None\<close>) or a calendar day, here the number of
  the day. Time runs in milliseconds from local midnight of day 0, a day has 86400000
  of them: \<open>new Date(day + 'T00:00:00')\<close> is the day's first millisecond and
  \<open>new Date(day + 'T23:59:59')\<close> the start of its last second. An order without a
  timestamp gives an invalid date, which compares false with everything.
\<close>

definition startOfDay :: "int \<Rightarrow> timestamp" where
  "startOfDay day = day * 86400000"

definition endOfDay :: "int \<Rightarrow> timestamp" where
  "endOfDay day = day * 86400000 + 86399000"

definition exportFilter :: "(jsstring \<Rightarrow> jsstring) \<Rightarrow> int option \<Rightarrow> int option \<Rightarrow> jsstring \<Rightarrow> Order collection \<Rightarrow> Order collection" where
  "exportFilter toLowerCase startDate endDate medFilter ords =
     (let orders1 =
            (case startDate of
               None \<Rightarrow> ords
             | Some day \<Rightarrow>
                 filter (\<lambda>(i, d). case timestamp d of
                                     None \<Rightarrow> False
                                   | Some orderDate \<Rightarrow> orderDate \<ge> startOfDay day) ords);
          orders2 =
            (case endDate of
               None \<Rightarrow> orders1
             | Some day \<Rightarrow>
                 filter (\<lambda>(i, d). case timestamp d of
                                     None \<Rightarrow> False
                                   | Some orderDate \<Rightarrow> orderDate \<le> endOfDay day) orders1)
      in if medFilter \<noteq> [] \<and> trim medFilter \<noteq> [] then
           filter (\<lambda>(i, d). includesStr (toLowerCase (medicationName d)) (toLowerCase medFilter))
             orders2
         else orders2)"

record ExportStats =
  s_orders :: nat
  s_patients :: nat
  s_providers :: nat
  s_medications :: nat

datatype ExportOutcome =
    NotConnected
  | NoDataFound
  | Exported "Order collection" ExportStats

definition handleExport :: "(jsstring \<Rightarrow> jsstring) \<Rightarrow> Database option \<Rightarrow> int option \<Rightarrow> int option \<Rightarrow> jsstring \<Rightarrow> ExportOutcome" where
  "handleExport toLowerCase dbo startDate endDate medFilter =
     (case dbo of
        None \<Rightarrow> NotConnected
      | Some db \<Rightarrow>
          (let selected = exportFilter toLowerCase startDate endDate medFilter (orders db) in
           if length selected = 0 then NoDataFound
           else Exported selected
                  \<lparr>s_orders = length selected,
                   s_patients = length (remdups (map (\<lambda>(i, d). patientMRN d) selected)),
                   s_providers = length (remdups (map (\<lambda>(i, d). providerNPI d) selected)),
                   s_medications = length (remdups (map (\<lambda>(i, d). medicationName d) selected))\<rparr>))"

section \<open>The specification's reading of a valid name\<close>

text \<open>
  The specification calls a name valid when its trimmed value is non-empty, contains only
  letters (including accented Latin letters), spaces, hyphens and apostrophes, and no
  digit. \<open>nameValidSpec\<close> follows these words. Its letters are the ASCII letters, the
  letters of Latin-1 (U+00C0 to U+00FF without the multiplication and the division sign)
  and those of Latin Extended-A (U+0100 to U+017F, all of them letters); its spaces are
  read as the white space \<open>\s\<close> matches.
\<close>

definition isLatin1Letter :: "nat \<Rightarrow> bool" where
  "isLatin1Letter c = (192 \<le> c \<and> c \<le> 255 \<and> c \<noteq> 215 \<and> c \<noteq> 247)"

definition isLetterSpec :: "nat \<Rightarrow> bool" where
  "isLetterSpec c = (isUpper c \<or> isLower c \<or> isLatin1Letter c \<or> (256 \<le> c \<and> c \<le> 383))"

definition nameValidSpec :: "jsstring \<Rightarrow> bool" where
  "nameValidSpec s =
     (let t = trim s in
      t \<noteq> [] \<and> list_all (\<lambda>c. isLetterSpec c \<or> isWhiteSpace c \<or> c = 45 \<or> c = 39) t
      \<and> \<not> list_ex isDigit t)"

text \<open>
  The code units every reading takes for part of a name: ASCII letters, the accented
  letters of Latin-1, white space, hyphen and apostrophe.
\<close>

definition acceptedNameUnit :: "nat \<Rightarrow> bool" where
  "acceptedNameUnit c =
     (isUpper c \<or> isLower c \<or> isLatin1Letter c \<or> isWhiteSpace c \<or> c = 45 \<or> c = 39)"

section \<open>Example data\<close>

text \<open>
  \<open>jose\<close> ends in U+00E9 (e with acute), \<open>dvorak\<close> is D, v, o, U+0159 (r with caron),
  U+00E1 (a with acute), k. \<open>validForm\<close> is the valid form of the repository's tests,
  \<open>exampleDb\<close> the store after that form was submitted once at time 1000.
\<close>

definition jose :: jsstring where
  "jose = str ''Jos'' @ [233]"

definition dvorak :: jsstring where
  "dvorak = str ''Dvo'' @ [345, 225, 107]"

definition validForm :: FormData where
  "validForm =
     \<lparr>patientFirstName = str ''John'', patientLastName = str ''Doe'',
      patientMRN = str ''123456'', primaryDiagnosis = str ''G70.0'',
      referringProvider = str ''Dr. Sarah Smith'', providerNPI = str ''1234567890'',
      medicationName = str ''Privigen'',
      additionalDiagnoses = [str ''I10'', str ''E11.9''],
      medicationHistory = [str ''Pyridostigmine 60mg q6h''],
      patientRecords = str ''Patient clinical records...''\<rparr>"

definition okBackend :: "FormData \<Rightarrow> HttpResult" where
  "okBackend formData = Responded (Some (str ''CARE PLAN''))"

definition downBackend :: "FormData \<Rightarrow> HttpResult" where
  "downBackend formData = NoResponse"

definition storedOrder :: Order where
  "storedOrder = newOrder validForm (str ''OLD PLAN'') 1000"

definition exampleDb :: Database where
  "exampleDb =
     \<lparr>orders = [(''order1'', storedOrder)],
      patients = [(''patient1'', \<lparr>mrn = str ''123456'', firstName = str ''John'',
                                  lastName = str ''Doe'', p_lastUpdated = 1000, totalOrders = 1\<rparr>)],
      providers = [(''provider1'', \<lparr>name = Some (str ''Dr. Sarah Smith''),
                                    npi = Some (str ''1234567890''),
                                    firstOrderDate = Some 1000, orderCount = Some 1\<rparr>)]\<rparr>"

definition exampleUpdate :: UpdateFields where
  "exampleUpdate =
     \<lparr>u_additionalDiagnoses = str ''I10, K21.9'',
      u_medicationHistory = str ''Prednisone 10mg daily'',
      u_patientRecords = str ''New clinical notes''\<rparr>"


definition correctionForm :: "bool \<Rightarrow> NewFeedback" where
  "correctionForm ok =
     \<lparr>n_sectionName = str ''PROBLEM LIST'', n_feedbackType = Correction,
      n_originalText = str ''IVIG 1 g/kg'', n_correctedText = str ''IVIG 2 g/kg'',
      n_comment = str ''dose per protocol'', n_approved = ok\<rparr>"

definition statuses :: "Order collection \<Rightarrow> (docId \<times> ApprovalStatus option) list" where
  "statuses c = map (\<lambda>(i, d). (i, approvalStatus d)) c"

text \<open>\<open>otherForm\<close> is \<open>validForm\<close> for another medication.\<close>

definition otherForm :: FormData where
  "otherForm = validForm\<lparr>medicationName := str ''Albuterol''\<rparr>"

text \<open>
  \<open>legacyDb\<close>: three orders and three providers whose later documents contradict the
  first ones. Orders 1 and 2 share the MRN 123456 under different names, orders 1 and 3
  share the name John Doe under different MRNs; providers 1 and 2 share a name under
  different NPIs, providers 1 and 3 share an NPI under different names.
\<close>

definition order2 :: Order where
  "order2 = newOrder (otherForm\<lparr>patientFirstName := str ''Jane'', patientLastName := str ''Roe''\<rparr>)
              (str ''PLAN 2'') 1100"

definition order3 :: Order where
  "order3 = newOrder (otherForm\<lparr>patientMRN := str ''654321''\<rparr>) (str ''PLAN 3'') 1200"

definition legacyDb :: Database where
  "legacyDb =
     \<lparr>orders = [(''order1'', newOrder otherForm (str ''PLAN 1'') 1000),
                (''order2'', order2), (''order3'', order3)],
      patients = [],
      providers = [(''provider1'', \<lparr>name = Some (str ''Dr. Sarah Smith''),
                                    npi = Some (str ''1234567890''),
                                    firstOrderDate = Some 1000, orderCount = Some 1\<rparr>),
                   (''provider2'', \<lparr>name = Some (str ''Dr. Sarah Smith''),
                                    npi = Some (str ''9999999999''),
                                    firstOrderDate = Some 1100, orderCount = Some 1\<rparr>),
                   (''provider3'', \<lparr>name = Some (str ''Dr. Alan Jones''),
                                    npi = Some (str ''1234567890''),
                                    firstOrderDate = Some 1200, orderCount = Some 1\<rparr>)]\<rparr>"

text \<open>A date format for the examples, and the blocking part of a list of warnings.\<close>

definition exampleLocale :: "timestamp \<Rightarrow> jsstring" where
  "exampleLocale t = str ''day '' @ decimal (nat (t div 86400000))"

definition blocking :: "Warning list \<Rightarrow> Warning list" where
  "blocking ws = filter (\<lambda>w. severity w = SevError) ws"

text \<open>
  The four blocking errors of \<open>checkDuplicates\<close>, and \<open>legacyDb\<close> with the documents of
  its orders and of its providers in the reverse order.
\<close>

definition mrnMismatch :: Warning where
  "mrnMismatch =
     \<lparr>w_type = PatientWarning,
      message = str ''MRN MISMATCH: This MRN is already registered to a different patient. Please verify the MRN is correct for this patient.'',
      severity = SevError\<rparr>"

definition patientNameMismatch :: Warning where
  "patientNameMismatch =
     \<lparr>w_type = PatientWarning,
      message = str ''PATIENT NAME MISMATCH: This patient name is already registered with a different MRN. Please verify the patient information is correct.'',
      severity = SevError\<rparr>"

definition npiMismatch :: Warning where
  "npiMismatch =
     \<lparr>w_type = ProviderWarning,
      message = str ''NPI MISMATCH: This provider name is already registered with a different NPI. Please verify the NPI is correct for this provider.'',
      severity = SevError\<rparr>"

definition providerNameMismatch :: Warning where
  "providerNameMismatch =
     \<lparr>w_type = ProviderWarning,
      message = str ''PROVIDER NAME MISMATCH: This NPI is already registered to a different provider. Please verify the provider name is correct for this NPI.'',
      severity = SevError\<rparr>"

definition reversedLegacyDb :: Database where
  "reversedLegacyDb =
     legacyDb\<lparr>orders := rev (orders legacyDb), providers := rev (providers legacyDb)\<rparr>"

text \<open>
  \<open>lateOrder\<close> is the stored order created half a second before the end of day 0,
  \<open>albuterolOrder\<close> an order for another medication.
\<close>

definition lateOrder :: Order where
  "lateOrder = storedOrder\<lparr>timestamp := Some 86399500\<rparr>"

definition albuterolOrder :: Order where
  "albuterolOrder = newOrder otherForm (str ''PLAN 2'') 1100"

section \<open>Properties\<close>

subsection \<open>Strings and the store\<close>

lemmas char_defs =
  str_def trim_def isWhiteSpace_def isDigit_def isUpper_def isLower_def nameClass_def
  formNameClass_def

lemma trim_nonempty: "trim s \<noteq> [] \<Longrightarrow> s \<noteq> []"
  by (auto simp: trim_def)

lemma map_of_patch:
  "map_of (map (\<lambda>(j, d). if j = i then (j, f d) else (j, d)) c) k
     = (if k = i then map_option f (map_of c i) else map_of c k)"
  by (induction c) auto

lemma updateDoc_Some_iff:
  "updateDoc c i f = Some c' \<longleftrightarrow>
     map_of c i \<noteq> None \<and> c' = map (\<lambda>(j, d). if j = i then (j, f d) else (j, d)) c"
  by (auto simp: updateDoc_def split: option.splits)

lemma getDoc_updateDoc:
  "updateDoc c i f = Some c' \<Longrightarrow>
     getDoc c' k = (if k = i then map_option f (getDoc c i) else getDoc c k)"
  by (simp add: updateDoc_Some_iff getDoc_def map_of_patch)

lemma ids_updateDoc: "updateDoc c i f = Some c' \<Longrightarrow> map fst c' = map fst c"
  by (auto simp: updateDoc_Some_iff split: prod.splits)

lemma updateDoc_present: "getDoc c i = Some d \<Longrightarrow> \<exists>c'. updateDoc c i f = Some c'"
  by (simp add: updateDoc_def getDoc_def)

lemma getDoc_distinct: "distinct (map fst c) \<Longrightarrow> (i, d) \<in> set c \<Longrightarrow> getDoc c i = Some d"
  by (simp add: getDoc_def)

lemma find_in_set: "find P xs = Some x \<Longrightarrow> x \<in> set xs \<and> P x"
  by (induction xs) (auto split: if_splits)

lemma orders_updatePatientMaster [simp]:
  "orders (updatePatientMaster now newId formData m db) = orders db"
  by (simp add: updatePatientMaster_def split: list.splits prod.splits option.splits)

lemma providers_updatePatientMaster [simp]:
  "providers (updatePatientMaster now newId formData m db) = providers db"
  by (simp add: updatePatientMaster_def split: list.splits prod.splits option.splits)

lemma okBackend_plan: "generateCarePlan okBackend formData = Inr (str ''CARE PLAN'')"
  by (simp add: generateCarePlan_def okBackend_def orElse_def str_def)

lemma downBackend_fails:
  "generateCarePlan downBackend formData
     = Inl (str ''Cannot connect to API server. Make sure the backend server is running.'')"
  by (simp add: generateCarePlan_def downBackend_def)

lemma exampleDb_duplicate:
  "checkForExactDuplicate (Some exampleDb) validForm = Some (''order1'', storedOrder)"
  by (simp add: checkForExactDuplicate_def exampleDb_def whereDocs_def storedOrder_def
      newOrder_def FormData.defs Order.defs validForm_def)

lemma checkForExactDuplicate_Some:
  assumes "checkForExactDuplicate (Some db) formData = Some (i, d)"
  shows "(i, d) \<in> set (orders db) \<and> patientMRN d = patientMRN formData
         \<and> medicationName d = medicationName formData
         \<and> primaryDiagnosis d = primaryDiagnosis formData
         \<and> providerNPI d = providerNPI formData"
proof -
  let ?snap = "whereDocs (\<lambda>d. patientMRN d = patientMRN formData
                                 \<and> medicationName d = medicationName formData) (orders db)"
  from assms have "find (\<lambda>(i, d). primaryDiagnosis d = primaryDiagnosis formData
                                \<and> providerNPI d = providerNPI formData) ?snap = Some (i, d)"
    by (simp add: checkForExactDuplicate_def Let_def split: if_splits)
  from find_in_set[OF this] show ?thesis
    by (auto simp: whereDocs_def)
qed

subsection \<open>The provider record on submission\<close>

text \<open>
  What \<open>submitOrder\<close> does to the \<open>providers\<close> collection. With no provider of the
  submitted NPI it adds a full record with order count 1. With one, it adds a document
  that holds nothing but an order count of 1, and changes no document.
\<close>

lemma saveOrder_new_provider:
  assumes "\<forall>(i, p) \<in> set (providers db). npi p \<noteq> Some (providerNPI formData)"
  shows "providers (saveOrder now orderId patientId providerId formData plan db)
           = providers db @ [(providerId, \<lparr>name = Some (referringProvider formData),
                                         npi = Some (providerNPI formData),
                                         firstOrderDate = Some now, orderCount = Some 1\<rparr>)]"
proof -
  have "whereDocs (\<lambda>p. npi p = Some (providerNPI formData)) (providers db) = []"
    using assms by (auto simp: whereDocs_def filter_empty_conv)
  then show ?thesis
    by (simp add: saveOrder_def Let_def addDoc_def)
qed

lemma saveOrder_known_provider:
  assumes "(i, p) \<in> set (providers db)" "npi p = Some (providerNPI formData)"
  shows "providers (saveOrder now orderId patientId providerId formData plan db)
           = providers db @ [(providerId, \<lparr>name = None, npi = None, firstOrderDate = None,
                                         orderCount = Some 1\<rparr>)]"
proof -
  have "whereDocs (\<lambda>p. npi p = Some (providerNPI formData)) (providers db) \<noteq> []"
    using assms by (auto simp: whereDocs_def filter_empty_conv)
  then show ?thesis
    by (simp add: saveOrder_def Let_def addDoc_def increment_def split: list.splits)
qed

text \<open>
  Claim C1 says that a submission whose NPI is already on record increments the order
  count of the existing provider record and creates no provider document. The code at
  such a submission: \<open>exampleDb\<close> holds the provider with NPI 1234567890 and order count
  1; after \<open>validForm\<close> is submitted with that NPI, the record still has order count 1
  and the collection holds a second document with no name and no NPI.
\<close>

theorem submitOrder_known_provider_adds_document:
  "providers exampleDb
     = [(''provider1'', \<lparr>name = Some (str ''Dr. Sarah Smith''), npi = Some (str ''1234567890''),
                         firstOrderDate = Some 1000, orderCount = Some 1\<rparr>)]
   \<and> fst (submitOrder okBackend 2000 ''order2'' ''patient2'' ''provider2'' (Some exampleDb) validForm)
       = OrderSaved (str ''CARE PLAN'')
   \<and> map_option providers
        (snd (submitOrder okBackend 2000 ''order2'' ''patient2'' ''provider2'' (Some exampleDb) validForm))
       = Some [(''provider1'', \<lparr>name = Some (str ''Dr. Sarah Smith''),
                                npi = Some (str ''1234567890''),
                                firstOrderDate = Some 1000, orderCount = Some 1\<rparr>),
               (''provider2'', \<lparr>name = None, npi = None, firstOrderDate = None,
                                orderCount = Some 1\<rparr>)]"
proof -
  have p: "providers exampleDb
     = [(''provider1'', \<lparr>name = Some (str ''Dr. Sarah Smith''), npi = Some (str ''1234567890''),
                         firstOrderDate = Some 1000, orderCount = Some 1\<rparr>)]"
    by (simp add: exampleDb_def)
  have n: "providerNPI validForm = str ''1234567890''"
    by (simp add: validForm_def)
  show ?thesis
    using saveOrder_known_provider[where i = "''provider1''" and db = exampleDb
        and formData = validForm] p n
    by (simp add: submitOrder_def okBackend_plan)
qed

subsection \<open>The versioned update\<close>

text \<open>
  Claim C2. A confirmed update of the order the duplicate check found, whose plan
  generation succeeds, appends exactly one entry to the order's history: the entry holds
  the stored additional diagnoses, medication history, clinical record and care plan as
  they were before the update (an absent plan as the empty text), the new history is the
  old one with that entry at its end, and the order's clinical record afterwards is the
  submitted text. The other content fields hold the submitted values and the new plan, and
  no other order changes.
\<close>

theorem handleSubmitUpdate_appends_snapshot:
  assumes ids: "distinct (map fst (orders db))"
    and dup: "checkForExactDuplicate (Some db) formData = Some (dupId, existingData)"
    and plan: "generateCarePlan post (mergeUpdate formData updateFields) = Inr newCarePlan"
  shows "\<exists>db' updated.
           handleSubmitUpdate post clientNow serverNow patientId (Some db) formData
               (Some (dupId, existingData)) updateFields
             = (RecordUpdated newCarePlan, Some db')
           \<and> getDoc (orders db) dupId = Some existingData
           \<and> getDoc (orders db') dupId = Some updated
           \<and> history updated
               = Some ((case history existingData of None \<Rightarrow> [] | Some h \<Rightarrow> h)
                       @ [\<lparr>h_timestamp = clientNow,
                           h_additionalDiagnoses = additionalDiagnoses existingData,
                           h_medicationHistory = medicationHistory existingData,
                           h_patientRecords = patientRecords existingData,
                           h_carePlan = orElse (carePlan existingData) []\<rparr>])
           \<and> patientRecords updated = u_patientRecords updateFields
           \<and> additionalDiagnoses updated = splitList (u_additionalDiagnoses updateFields)
           \<and> medicationHistory updated = splitList (u_medicationHistory updateFields)
           \<and> carePlan updated = Some newCarePlan
           \<and> map fst (orders db') = map fst (orders db)
           \<and> (\<forall>j. j \<noteq> dupId \<longrightarrow> getDoc (orders db') j = getDoc (orders db) j)"
proof -
  let ?f = "\<lambda>d::Order. d\<lparr>additionalDiagnoses := splitList (u_additionalDiagnoses updateFields),
                 medicationHistory := splitList (u_medicationHistory updateFields),
                 patientRecords := u_patientRecords updateFields,
                 carePlan := Some newCarePlan,
                 lastUpdated := Some serverNow,
                 history := Some ((case history existingData of None \<Rightarrow> [] | Some h \<Rightarrow> h)
                                  @ [historyEntryOf clientNow existingData])\<rparr>"
  from checkForExactDuplicate_Some[OF dup] ids
  have stored: "getDoc (orders db) dupId = Some existingData"
    by (simp add: getDoc_distinct)
  then obtain orders' where upd: "updateDoc (orders db) dupId ?f = Some orders'"
    using updateDoc_present[of "orders db" dupId existingData ?f] by auto
  let ?db' = "updatePatientMaster serverNow patientId formData (patientMRN formData)
                (db\<lparr>orders := orders'\<rparr>)"
  have run: "handleSubmitUpdate post clientNow serverNow patientId (Some db) formData
               (Some (dupId, existingData)) updateFields = (RecordUpdated newCarePlan, Some ?db')"
    using plan upd by (simp add: handleSubmitUpdate_def Let_def)
  have after: "getDoc (orders ?db') dupId = Some (?f existingData)"
    using getDoc_updateDoc[OF upd, of dupId] stored by simp
  have others: "\<forall>j. j \<noteq> dupId \<longrightarrow> getDoc (orders ?db') j = getDoc (orders db) j"
    using getDoc_updateDoc[OF upd] by simp
  have idsame: "map fst (orders ?db') = map fst (orders db)"
    using ids_updateDoc[OF upd] by simp
  show ?thesis
    apply (rule exI[of _ ?db'])
    apply (rule exI[of _ "?f existingData"])
    using run stored after others idsame
    by (simp add: historyEntryOf_def)
qed

text \<open>
  Witness for C2: the stored order of \<open>exampleDb\<close> is updated at client time 2000; its
  history, empty before, then holds the one entry with the old record text and the old
  plan, and the record text is the new one.
\<close>

theorem handleSubmitUpdate_appends_snapshot_witness:
  "distinct (map fst (orders exampleDb))
   \<and> checkForExactDuplicate (Some exampleDb) validForm = Some (''order1'', storedOrder)
   \<and> generateCarePlan okBackend (mergeUpdate validForm exampleUpdate) = Inr (str ''CARE PLAN'')
   \<and> (\<exists>db' updated.
         handleSubmitUpdate okBackend 2000 2001 ''patient2'' (Some exampleDb) validForm
             (Some (''order1'', storedOrder)) exampleUpdate
           = (RecordUpdated (str ''CARE PLAN''), Some db')
         \<and> getDoc (orders db') ''order1'' = Some updated
         \<and> history updated
             = Some [\<lparr>h_timestamp = 2000,
                      h_additionalDiagnoses = [str ''I10'', str ''E11.9''],
                      h_medicationHistory = [str ''Pyridostigmine 60mg q6h''],
                      h_patientRecords = str ''Patient clinical records...'',
                      h_carePlan = str ''OLD PLAN''\<rparr>]
         \<and> patientRecords updated = str ''New clinical notes'')"
proof -
  have h1: "distinct (map fst (orders exampleDb))"
    by (simp add: exampleDb_def)
  note h2 = exampleDb_duplicate
  have h3: "generateCarePlan okBackend (mergeUpdate validForm exampleUpdate) = Inr (str ''CARE PLAN'')"
    by (rule okBackend_plan)
  have old: "history storedOrder = Some []" "carePlan storedOrder = Some (str ''OLD PLAN'')"
    "additionalDiagnoses storedOrder = [str ''I10'', str ''E11.9'']"
    "medicationHistory storedOrder = [str ''Pyridostigmine 60mg q6h'']"
    "patientRecords storedOrder = str ''Patient clinical records...''"
    by (simp_all add: storedOrder_def newOrder_def FormData.defs Order.defs validForm_def)
  have new: "u_patientRecords exampleUpdate = str ''New clinical notes''"
    by (simp add: exampleUpdate_def)
  have plan: "orElse (Some (str ''OLD PLAN'')) [] = str ''OLD PLAN''"
    by (simp add: orElse_def str_def)
  from handleSubmitUpdate_appends_snapshot[OF h1 h2 h3, where clientNow = 2000
      and serverNow = 2001 and patientId = "''patient2''"]
  obtain db' updated where
    "handleSubmitUpdate okBackend 2000 2001 ''patient2'' (Some exampleDb) validForm
             (Some (''order1'', storedOrder)) exampleUpdate
           = (RecordUpdated (str ''CARE PLAN''), Some db')"
    "getDoc (orders db') ''order1'' = Some updated"
    "history updated
       = Some ((case history storedOrder of None \<Rightarrow> [] | Some h \<Rightarrow> h)
               @ [\<lparr>h_timestamp = 2000,
                   h_additionalDiagnoses = additionalDiagnoses storedOrder,
                   h_medicationHistory = medicationHistory storedOrder,
                   h_patientRecords = patientRecords storedOrder,
                   h_carePlan = orElse (carePlan storedOrder) []\<rparr>])"
    "patientRecords updated = u_patientRecords exampleUpdate"
    by blast
  then have "\<exists>db' updated.
         handleSubmitUpdate okBackend 2000 2001 ''patient2'' (Some exampleDb) validForm
             (Some (''order1'', storedOrder)) exampleUpdate
           = (RecordUpdated (str ''CARE PLAN''), Some db')
         \<and> getDoc (orders db') ''order1'' = Some updated
         \<and> history updated
             = Some [\<lparr>h_timestamp = 2000,
                      h_additionalDiagnoses = [str ''I10'', str ''E11.9''],
                      h_medicationHistory = [str ''Pyridostigmine 60mg q6h''],
                      h_patientRecords = str ''Patient clinical records...'',
                      h_carePlan = str ''OLD PLAN''\<rparr>]
         \<and> patientRecords updated = str ''New clinical notes''"
    using old new plan by auto
  with h1 h2 h3 show ?thesis by blast
qed

text \<open>
  Claim C3. When the care plan generation of a confirmed update fails, the update writes
  nothing: the database afterwards is the database before, whatever the state of the
  component, so no history entry, no new content field and no new plan is stored; with a
  database and a duplicate at hand the outcome is the failure with the service's message.
\<close>

theorem handleSubmitUpdate_failure_keeps_store:
  assumes "generateCarePlan post (mergeUpdate formData updateFields) = Inl msg"
  shows "snd (handleSubmitUpdate post clientNow serverNow patientId dbo formData
                duplicateFound updateFields) = dbo
         \<and> handleSubmitUpdate post clientNow serverNow patientId (Some db) formData
                (Some (dupId, existingData)) updateFields
             = (UpdateFailed (ServiceError msg), Some db)"
  using assms
  by (auto simp: handleSubmitUpdate_def Let_def split: option.splits prod.splits)

text \<open>
  Witness for C3: the backend cannot be reached while the stored order of \<open>exampleDb\<close>
  is updated; the database stays \<open>exampleDb\<close>.
\<close>

theorem handleSubmitUpdate_failure_keeps_store_witness:
  "generateCarePlan downBackend (mergeUpdate validForm exampleUpdate)
     = Inl (str ''Cannot connect to API server. Make sure the backend server is running.'')
   \<and> handleSubmitUpdate downBackend 2000 2001 ''patient2'' (Some exampleDb) validForm
        (Some (''order1'', storedOrder)) exampleUpdate
      = (UpdateFailed (ServiceError
           (str ''Cannot connect to API server. Make sure the backend server is running.'')),
         Some exampleDb)"
  using handleSubmitUpdate_failure_keeps_store[OF downBackend_fails,
      where formData = validForm and updateFields = exampleUpdate and clientNow = 2000
        and serverNow = 2001 and patientId = "''patient2''" and db = exampleDb
        and dupId = "''order1''" and existingData = storedOrder]
    downBackend_fails[of "mergeUpdate validForm exampleUpdate"]
  by simp

subsection \<open>Validation on submit\<close>

lemma validForm_ok: "validateAllFields validForm = []" "formErrors validForm = []"
  by (simp_all add: validateAllFields_def formErrors_def requiredFields_def validateField_def
      validForm_def validateRequiredField_def validateName_def validateMRN_def validateNPI_def
      validateICD10_def char_defs)

text \<open>
  Claim C4 says that a submission whose fields are valid under the field validators is not
  aborted for a validation error, as with the name \<open>jose\<close> or the diagnosis code g70.0.
  The code at these two submissions: the batch validator of utils/validation.ts reports
  no error for either form, and \<open>handleSubmit\<close>, which runs the form's own
  \<open>validateField\<close>, aborts both with a format error and leaves the database as it was.
\<close>

theorem handleSubmit_aborts_valid_fields:
  "validateAllFields (validForm\<lparr>patientFirstName := jose\<rparr>) = []
   \<and> handleSubmit post now orderId patientId providerId dbo warnings
        (validForm\<lparr>patientFirstName := jose\<rparr>)
       = (ValidationAborted
            [(PatientFirstName,
              str ''Name must contain only letters, spaces, hyphens, or apostrophes'')], dbo)
   \<and> validateAllFields (validForm\<lparr>primaryDiagnosis := str ''g70.0''\<rparr>) = []
   \<and> handleSubmit post now orderId patientId providerId dbo warnings
        (validForm\<lparr>primaryDiagnosis := str ''g70.0''\<rparr>)
       = (ValidationAborted [(PrimaryDiagnosis, str ''Invalid ICD-10 format'')], dbo)"
  by (simp add: handleSubmit_def validateAllFields_def formErrors_def requiredFields_def
      validateField_def validForm_def validateRequiredField_def validateName_def
      validateMRN_def validateNPI_def validateICD10_def char_defs jose_def)

subsection \<open>validateName\<close>

lemma nameClass_not_digit: "nameClass c \<Longrightarrow> \<not> isDigit c"
  by (auto simp: nameClass_def isDigit_def isLower_def isUpper_def isWhiteSpace_def)

lemma beyond_latin1_not_nameClass: "256 \<le> c \<Longrightarrow> \<not> isWhiteSpace c \<Longrightarrow> \<not> nameClass c"
  by (auto simp: nameClass_def isLower_def isUpper_def)

text \<open>What the code computes: the test for digits never decides.\<close>

lemma validateName_iff:
  "validateName s \<longleftrightarrow> trim s \<noteq> [] \<and> list_all nameClass (trim s)"
  using trim_nonempty[of s] nameClass_not_digit
  by (auto simp: validateName_def Let_def list_all_iff list_ex_iff)

text \<open>
  Claim C7 as stated, that \<open>validateName\<close> holds exactly of the names the specification
  calls valid, fails at the name \<open>dvorak\<close>: it consists of letters only, one of them the
  accented Latin letter U+0159, and \<open>validateName\<close> rejects it, since its class of
  accented letters ends at U+00FF.
\<close>

theorem validateName_spec_counterexample:
  "\<not> (validateName dvorak \<longleftrightarrow> nameValidSpec dvorak)"
  by (simp add: validateName_def nameValidSpec_def dvorak_def isLetterSpec_def
      isLatin1Letter_def char_defs)

text \<open>
  Claim C7, amended. For every string: if its trimmed value is non-empty and consists of
  ASCII letters, accented letters of Latin-1 (U+00C0 to U+00FF without the multiplication
  and the division sign), white space, hyphens and apostrophes, then \<open>validateName\<close>
  holds; if \<open>validateName\<close> holds, the trimmed value is non-empty, has no digit, and
  consists of ASCII letters, code units from U+00C0 to U+00FF, white space, hyphens and
  apostrophes; so a character beyond U+00FF that is no white space makes the name
  invalid. O'Brien, Mary-Jane and \<open>jose\<close> are valid, John123 and John@Doe are not.
\<close>

theorem validateName_amended:
  "(trim s \<noteq> [] \<and> list_all acceptedNameUnit (trim s) \<longrightarrow> validateName s)
   \<and> (validateName s \<longrightarrow>
        trim s \<noteq> [] \<and> \<not> list_ex isDigit (trim s) \<and> list_all nameClass (trim s))
   \<and> (list_ex (\<lambda>c. 256 \<le> c \<and> \<not> isWhiteSpace c) (trim s) \<longrightarrow> \<not> validateName s)
   \<and> validateName (str ''O'Brien'') \<and> validateName (str ''Mary-Jane'') \<and> validateName jose
   \<and> \<not> validateName (str ''John123'') \<and> \<not> validateName (str ''John@Doe'')"
proof -
  have a: "trim s \<noteq> [] \<and> list_all acceptedNameUnit (trim s) \<longrightarrow> validateName s"
    by (auto simp: validateName_iff list_all_iff acceptedNameUnit_def nameClass_def
        isLatin1Letter_def)
  have b: "validateName s \<longrightarrow>
        trim s \<noteq> [] \<and> \<not> list_ex isDigit (trim s) \<and> list_all nameClass (trim s)"
    using nameClass_not_digit by (auto simp: validateName_iff list_all_iff list_ex_iff)
  have c: "list_ex (\<lambda>c. 256 \<le> c \<and> \<not> isWhiteSpace c) (trim s) \<longrightarrow> \<not> validateName s"
  proof
    assume "list_ex (\<lambda>c. 256 \<le> c \<and> \<not> isWhiteSpace c) (trim s)"
    then obtain c where "c \<in> set (trim s)" "256 \<le> c" "\<not> isWhiteSpace c"
      by (auto simp: list_ex_iff)
    then have "\<not> list_all nameClass (trim s)"
      using beyond_latin1_not_nameClass by (auto simp: list_all_iff)
    then show "\<not> validateName s" by (simp add: validateName_iff)
  qed
  have d: "validateName (str ''O'Brien'')" "validateName (str ''Mary-Jane'')" "validateName jose"
    "\<not> validateName (str ''John123'')" "\<not> validateName (str ''John@Doe'')"
    by (simp_all add: validateName_def jose_def char_defs)
  from a b c d show ?thesis by blast
qed

text \<open>
  Witness for C7: \<open>jose\<close> meets the sufficient condition and is valid; \<open>dvorak\<close> has a
  character beyond U+00FF and is invalid.
\<close>

theorem validateName_amended_witness:
  "trim jose \<noteq> [] \<and> list_all acceptedNameUnit (trim jose) \<and> validateName jose
   \<and> list_ex (\<lambda>c. 256 \<le> c \<and> \<not> isWhiteSpace c) (trim dvorak) \<and> \<not> validateName dvorak"
proof -
  have h: "trim jose \<noteq> [] \<and> list_all acceptedNameUnit (trim jose)"
    by (simp add: jose_def acceptedNameUnit_def isLatin1Letter_def char_defs)
  have k: "list_ex (\<lambda>c. 256 \<le> c \<and> \<not> isWhiteSpace c) (trim dvorak)"
    by (simp add: dvorak_def char_defs)
  from h k validateName_amended[of jose] validateName_amended[of dvorak] show ?thesis by blast
qed

subsection \<open>Feedback and the approval status\<close>

text \<open>
  The item \<open>handleAddFeedback\<close> builds holds an undefined property exactly when one of
  the three texts of the form was left empty.
\<close>

lemma handleAddFeedback_hasUndefined:
  assumes "n_sectionName newFeedback \<noteq> []" "pharmacist \<noteq> []"
  shows "\<exists>item. handleAddFeedback now pharmacist newFeedback feedback = feedback @ [item]
           \<and> approved item = n_approved newFeedback
           \<and> (hasUndefined item \<longleftrightarrow>
                n_originalText newFeedback = [] \<or> n_correctedText newFeedback = []
                \<or> n_comment newFeedback = [])"
  using assms by (simp add: handleAddFeedback_def hasUndefined_def orUndefined_def)

text \<open>
  When no feedback item holds an undefined property, submitting a non-empty list on a
  stored order sets the status: \<open>approved\<close> exactly when every flag is true,
  \<open>corrections_pending\<close> when one is false.
\<close>

lemma handleSubmitFeedback_status_storable:
  assumes "feedback \<noteq> []" "selectedId \<noteq> []" "pharmacist \<noteq> []"
    and "getDoc (orders db) selectedId = Some stored"
    and "\<not> list_ex hasUndefined feedback"
  shows "\<exists>db' updated.
           handleSubmitFeedback serverNow (Some db) (Some (selectedId, selected)) pharmacist feedback
             = (FeedbackSubmitted, Some db')
           \<and> getDoc (orders db') selectedId = Some updated
           \<and> (approvalStatus updated = Some Approved \<longleftrightarrow> list_all approved feedback)
           \<and> (list_ex (\<lambda>f. \<not> approved f) feedback
                \<longrightarrow> approvalStatus updated = Some CorrectionsPending)
           \<and> (approvalStatus updated = Some Approved
                \<or> approvalStatus updated = Some CorrectionsPending)"
proof -
  let ?status = "if list_all approved feedback then Approved else CorrectionsPending"
  let ?f = "\<lambda>d::Order. d\<lparr>approvalStatus := Some ?status,
                 pharmacistFeedback := Some feedback,
                 correctionHistory :=
                   Some ((case correctionHistory selected of None \<Rightarrow> [] | Some h \<Rightarrow> h)
                         @ map correctionEntry feedback),
                 lastUpdated := Some serverNow\<rparr>"
  obtain orders' where upd: "updateDoc (orders db) selectedId ?f = Some orders'"
    using updateDoc_present[of "orders db" selectedId stored ?f] assms(4) by auto
  have run: "handleSubmitFeedback serverNow (Some db) (Some (selectedId, selected)) pharmacist feedback
             = (FeedbackSubmitted, Some (db\<lparr>orders := orders'\<rparr>))"
    using assms(1-3,5) upd by (simp add: handleSubmitFeedback_def Let_def)
  have after: "getDoc (orders (db\<lparr>orders := orders'\<rparr>)) selectedId = Some (?f stored)"
    using getDoc_updateDoc[OF upd, of selectedId] assms(4) by simp
  have some: "list_ex (\<lambda>f. \<not> approved f) feedback \<longleftrightarrow> \<not> list_all approved feedback"
    by (auto simp: list_ex_iff list_all_iff)
  show ?thesis
    apply (rule exI[of _ "db\<lparr>orders := orders'\<rparr>"])
    apply (rule exI[of _ "?f stored"])
    using run after some by simp
qed

text \<open>
  When an item holds an undefined property, the store refuses the data and nothing is
  written, whatever the approval flags are.
\<close>

lemma handleSubmitFeedback_undefined_keeps_store:
  assumes "list_ex hasUndefined feedback"
  shows "snd (handleSubmitFeedback serverNow dbo selectedOrder pharmacist feedback) = dbo"
  using assms
  by (auto simp: handleSubmitFeedback_def Let_def split: option.splits prod.splits)

text \<open>
  Two corrections with all three texts on the stored order of \<open>exampleDb\<close>: with one
  of them not approved the status becomes \<open>corrections_pending\<close>, with both approved it
  becomes \<open>approved\<close>.
\<close>

lemma handleSubmitFeedback_corrections_example:
  "(\<exists>db' updated.
      handleSubmitFeedback 4000 (Some exampleDb) (Some (''order1'', storedOrder)) (str ''Pat'')
          (handleAddFeedback 3001 (str ''Pat'') (correctionForm False)
             (handleAddFeedback 3000 (str ''Pat'') (correctionForm True) []))
        = (FeedbackSubmitted, Some db')
      \<and> getDoc (orders db') ''order1'' = Some updated
      \<and> approvalStatus updated = Some CorrectionsPending)
   \<and> (\<exists>db' updated.
      handleSubmitFeedback 4000 (Some exampleDb) (Some (''order1'', storedOrder)) (str ''Pat'')
          (handleAddFeedback 3001 (str ''Pat'') (correctionForm True)
             (handleAddFeedback 3000 (str ''Pat'') (correctionForm True) []))
        = (FeedbackSubmitted, Some db')
      \<and> getDoc (orders db') ''order1'' = Some updated
      \<and> approvalStatus updated = Some Approved)"
proof -
  let ?mixed = "handleAddFeedback 3001 (str ''Pat'') (correctionForm False)
                  (handleAddFeedback 3000 (str ''Pat'') (correctionForm True) [])"
  let ?both = "handleAddFeedback 3001 (str ''Pat'') (correctionForm True)
                 (handleAddFeedback 3000 (str ''Pat'') (correctionForm True) [])"
  have h2: "''order1'' \<noteq> []" by simp
  have h3: "str ''Pat'' \<noteq> []" by (simp add: str_def)
  have h4: "getDoc (orders exampleDb) ''order1'' = Some storedOrder"
    by (simp add: getDoc_def exampleDb_def)
  have m: "?mixed \<noteq> []" "\<not> list_ex hasUndefined ?mixed" "list_ex (\<lambda>f. \<not> approved f) ?mixed"
    by (simp_all add: handleAddFeedback_def correctionForm_def hasUndefined_def orUndefined_def
        str_def)
  have b: "?both \<noteq> []" "\<not> list_ex hasUndefined ?both" "list_all approved ?both"
    by (simp_all add: handleAddFeedback_def correctionForm_def hasUndefined_def orUndefined_def
        str_def)
  have 1: "\<exists>db' updated.
      handleSubmitFeedback 4000 (Some exampleDb) (Some (''order1'', storedOrder)) (str ''Pat'') ?mixed
        = (FeedbackSubmitted, Some db')
      \<and> getDoc (orders db') ''order1'' = Some updated
      \<and> approvalStatus updated = Some CorrectionsPending"
    using handleSubmitFeedback_status_storable[OF m(1) h2 h3 h4 m(2), where serverNow = 4000
        and selected = storedOrder] m(3) by blast
  have 2: "\<exists>db' updated.
      handleSubmitFeedback 4000 (Some exampleDb) (Some (''order1'', storedOrder)) (str ''Pat'') ?both
        = (FeedbackSubmitted, Some db')
      \<and> getDoc (orders db') ''order1'' = Some updated
      \<and> approvalStatus updated = Some Approved"
    using handleSubmitFeedback_status_storable[OF b(1) h2 h3 h4 b(2), where serverNow = 4000
        and selected = storedOrder] b(3) by blast
  from 1 2 show ?thesis by blast
qed


subsection \<open>Where an approval status comes from\<close>

lemma newOrder_fields:
  "history (newOrder formData plan now) = Some []"
  "approvalStatus (newOrder formData plan now) = None"
  "carePlan (newOrder formData plan now) = Some plan"
  "timestamp (newOrder formData plan now) = Some now"
  by (simp_all add: newOrder_def FormData.defs Order.defs)

lemma orders_saveOrder:
  "orders (saveOrder now orderId patientId providerId formData plan db)
     = orders db @ [(orderId, newOrder formData plan now)]"
  by (simp add: saveOrder_def Let_def addDoc_def split: list.splits)

lemma submitOrder_orders:
  "snd (submitOrder post now orderId patientId providerId (Some db) formData) = Some db'
   \<Longrightarrow> orders db' = orders db
       \<or> (\<exists>plan. orders db' = orders db @ [(orderId, newOrder formData plan now)])"
  by (auto simp: submitOrder_def orders_saveOrder split: sum.splits)

lemma handleSubmit_orders:
  "snd (handleSubmit post now orderId patientId providerId (Some db) warnings formData) = Some db'
   \<Longrightarrow> orders db' = orders db
       \<or> (\<exists>plan. orders db' = orders db @ [(orderId, newOrder formData plan now)])"
  using submitOrder_orders[of post now orderId patientId providerId db formData db']
  by (auto simp: handleSubmit_def Let_def split: if_splits option.splits)

lemma statuses_updateDoc:
  assumes "updateDoc c i f = Some c'" "\<And>d. approvalStatus (f d) = approvalStatus d"
  shows "statuses c' = statuses c"
  using assms by (auto simp: updateDoc_Some_iff statuses_def)

lemma handleSubmitUpdate_statuses:
  assumes "snd (handleSubmitUpdate post clientNow serverNow patientId (Some db) formData
                  duplicateFound updateFields) = Some db'"
  shows "statuses (orders db') = statuses (orders db)"
  using assms
  by (auto simp: handleSubmitUpdate_def Let_def statuses_updateDoc
      split: option.splits prod.splits sum.splits)

lemma fetchPendingOrders_eq:
  "fetchPendingOrders (Some db)
     = Some (filter (\<lambda>(i, d). approvalStatus d = Some Pending
                               \<or> approvalStatus d = Some CorrectionsPending) (orders db))"
proof -
  have "\<And>d::Order. (case approvalStatus d of None \<Rightarrow> False | Some status \<Rightarrow> status \<noteq> Approved)
          \<longleftrightarrow> (approvalStatus d = Some Pending \<or> approvalStatus d = Some CorrectionsPending)"
    subgoal for d
      by (cases "approvalStatus d") (auto intro: ApprovalStatus.exhaust)
    done
  then show ?thesis
    by (simp add: fetchPendingOrders_def whereDocs_def)
qed

text \<open>
  Accepting an improved plan stores the plan and the status \<open>approved\<close>, when no
  feedback item holds an undefined property.
\<close>

lemma handleAcceptImprovedPlan_sets_approved:
  assumes "getDoc (orders db) selectedId = Some stored" "selectedId \<noteq> []" "plan \<noteq> []"
    and "\<not> list_ex hasUndefined feedback"
  shows "\<exists>db' updated.
           handleAcceptImprovedPlan serverNow (Some db) (Some (selectedId, selected)) (Some plan) feedback
             = (PlanAccepted, Some db')
           \<and> getDoc (orders db') selectedId = Some updated
           \<and> approvalStatus updated = Some Approved \<and> carePlan updated = Some plan"
proof -
  let ?f = "\<lambda>d::Order. d\<lparr>carePlan := Some (orElse (Some plan) []),
                                 pharmacistFeedback := Some feedback,
                                 approvalStatus := Some Approved,
                                 lastUpdated := Some serverNow\<rparr>"
  obtain orders' where upd: "updateDoc (orders db) selectedId ?f = Some orders'"
    using updateDoc_present[of "orders db" selectedId stored ?f] assms(1) by auto
  have run: "handleAcceptImprovedPlan serverNow (Some db) (Some (selectedId, selected)) (Some plan) feedback
             = (PlanAccepted, Some (db\<lparr>orders := orders'\<rparr>))"
    using assms(2,3,4) upd by (simp add: handleAcceptImprovedPlan_def orElse_def)
  have after: "getDoc (orders (db\<lparr>orders := orders'\<rparr>)) selectedId = Some (?f stored)"
    using getDoc_updateDoc[OF upd, of selectedId] assms(1) by simp
  show ?thesis
    apply (rule exI[of _ "db\<lparr>orders := orders'\<rparr>"])
    apply (rule exI[of _ "?f stored"])
    using run after assms(3) by (simp add: orElse_def)
qed

text \<open>
  Claim C9. The order document of a first submission has an empty history and no approval
  status field; \<open>submitOrder\<close> adds exactly this document to the orders. Neither
  \<open>handleSubmit\<close> nor \<open>handleSubmitUpdate\<close> changes the status field of any order: after
  them every order has the status it had, and a new order has none, so a status only
  appears through a review action (\<open>handleSubmitFeedback_status_storable\<close>,
  \<open>handleAcceptImprovedPlan_sets_approved\<close>).
  The listing of pending orders returns the orders whose status field is set and is not
  \<open>approved\<close>.
\<close>

theorem new_orders_carry_no_status:
  "history (newOrder formData plan now) = Some []
   \<and> approvalStatus (newOrder formData plan now) = None
   \<and> (generateCarePlan post formData = Inr plan \<longrightarrow>
        map_option orders (snd (submitOrder post now orderId patientId providerId (Some db) formData))
          = Some (orders db @ [(orderId, newOrder formData plan now)]))
   \<and> (\<forall>db'. snd (handleSubmit post now orderId patientId providerId (Some db) warnings formData)
                = Some db' \<longrightarrow>
          statuses (orders db') = statuses (orders db)
          \<or> statuses (orders db') = statuses (orders db) @ [(orderId, None)])
   \<and> (\<forall>db'. snd (handleSubmitUpdate post clientNow serverNow patientId (Some db) formData
                     duplicateFound updateFields) = Some db' \<longrightarrow>
          statuses (orders db') = statuses (orders db))
   \<and> fetchPendingOrders (Some db)
       = Some (filter (\<lambda>(i, d). approvalStatus d = Some Pending
                                 \<or> approvalStatus d = Some CorrectionsPending) (orders db))"
proof -
  have a: "generateCarePlan post formData = Inr plan \<longrightarrow>
        map_option orders (snd (submitOrder post now orderId patientId providerId (Some db) formData))
          = Some (orders db @ [(orderId, newOrder formData plan now)])"
    by (simp add: submitOrder_def orders_saveOrder)
  have b: "\<forall>db'. snd (handleSubmit post now orderId patientId providerId (Some db) warnings formData)
                = Some db' \<longrightarrow>
          statuses (orders db') = statuses (orders db)
          \<or> statuses (orders db') = statuses (orders db) @ [(orderId, None)]"
    using handleSubmit_orders[of post now orderId patientId providerId db warnings formData]
    by (auto simp: statuses_def newOrder_fields)
  have c: "\<forall>db'. snd (handleSubmitUpdate post clientNow serverNow patientId (Some db) formData
                     duplicateFound updateFields) = Some db' \<longrightarrow>
          statuses (orders db') = statuses (orders db)"
    using handleSubmitUpdate_statuses by blast
  from a b c newOrder_fields(1,2) fetchPendingOrders_eq show ?thesis by blast
qed

text \<open>
  Witness for C9: \<open>otherForm\<close> is submitted to \<open>exampleDb\<close>; the orders are then the
  stored one and the new one, which has an empty history and no status. Neither order has
  a status field, so the listing of pending orders is empty.
\<close>

theorem new_orders_carry_no_status_witness:
  "generateCarePlan okBackend otherForm = Inr (str ''CARE PLAN'')
   \<and> map_option orders
        (snd (submitOrder okBackend 2000 ''order2'' ''patient2'' ''provider2'' (Some exampleDb) otherForm))
       = Some [(''order1'', storedOrder), (''order2'', newOrder otherForm (str ''CARE PLAN'') 2000)]
   \<and> history (newOrder otherForm (str ''CARE PLAN'') 2000) = Some []
   \<and> approvalStatus (newOrder otherForm (str ''CARE PLAN'') 2000) = None
   \<and> fetchPendingOrders
        (snd (submitOrder okBackend 2000 ''order2'' ''patient2'' ''provider2'' (Some exampleDb) otherForm))
       = Some []"
proof -
  have o: "orders exampleDb = [(''order1'', storedOrder)]"
    by (simp add: exampleDb_def)
  have s: "approvalStatus storedOrder = None"
    by (simp add: storedOrder_def newOrder_fields)
  have p: "fetchPendingOrders
        (snd (submitOrder okBackend 2000 ''order2'' ''patient2'' ''provider2'' (Some exampleDb) otherForm))
       = Some []"
    by (simp add: submitOrder_def okBackend_plan fetchPendingOrders_def whereDocs_def
        orders_saveOrder o s newOrder_fields)
  from new_orders_carry_no_status[where formData = otherForm and plan = "str ''CARE PLAN''"
      and now = 2000 and post = okBackend and orderId = "''order2''" and patientId = "''patient2''"
      and providerId = "''provider2''" and db = exampleDb]
    okBackend_plan[of otherForm] o p
  show ?thesis by simp
qed

subsection \<open>The identity checks read the first match\<close>

lemma severity_duplicateWarning [simp]:
  "severity (duplicateWarning toLocaleDateString d) = SevWarning"
  by (simp add: duplicateWarning_def Let_def)

lemma blocking_duplicateOrderCheck [simp]:
  "blocking (duplicateOrderCheck toLocaleDateString ords formData) = []"
  unfolding blocking_def duplicateOrderCheck_def Let_def
  by (simp only: split: if_split option.split prod.split) simp

lemma blocking_append [simp]: "blocking (xs @ ys) = blocking xs @ blocking ys"
  by (simp add: blocking_def)

text \<open>
  The warnings of \<open>checkDuplicates\<close> are those of its three blocks, and each identity
  check emits its error when the first document of its query result contradicts the
  submission, whatever the later documents hold.
\<close>

lemma checkDuplicates_Some:
  assumes "checkDuplicates toLowerCase toLocaleDateString (Some db) formData = Some ws"
  shows "\<exists>pw. providerChecks toLowerCase (providers db) formData = Some pw
              \<and> ws = patientChecks toLowerCase (orders db) formData
                     @ duplicateOrderCheck toLocaleDateString (orders db) formData @ pw"
  using assms by (auto simp: checkDuplicates_def split: option.splits)

lemma blocking_member: "w \<in> set ws \<Longrightarrow> severity w = SevError \<Longrightarrow> w \<in> set (blocking ws)"
  by (simp add: blocking_def)

lemma patientChecks_mrn_error:
  assumes "patientMRN formData \<noteq> []" "length (patientMRN formData) = 6"
    "patientFirstName formData \<noteq> []" "patientLastName formData \<noteq> []"
    and "whereDocs (\<lambda>d. patientMRN d = patientMRN formData) ords = (j, e) # later"
    and "toLowerCase (patientFirstName e) \<noteq> toLowerCase (patientFirstName formData)
         \<or> toLowerCase (patientLastName e) \<noteq> toLowerCase (patientLastName formData)"
  shows "mrnMismatch \<in> set (patientChecks toLowerCase ords formData)"
  using assms by (auto simp: patientChecks_def mrnMismatch_def)

lemma patientChecks_name_error:
  assumes "patientMRN formData \<noteq> []" "length (patientMRN formData) = 6"
    "patientFirstName formData \<noteq> []" "patientLastName formData \<noteq> []"
    and "whereDocs (\<lambda>d. patientFirstName d = patientFirstName formData
                          \<and> patientLastName d = patientLastName formData) ords = (j, e) # later"
    and "patientMRN e \<noteq> patientMRN formData"
  shows "patientNameMismatch \<in> set (patientChecks toLowerCase ords formData)"
  using assms by (auto simp: patientChecks_def patientNameMismatch_def)

lemma providerChecks_npi_error:
  assumes "referringProvider formData \<noteq> []" "providerNPI formData \<noteq> []"
    "length (providerNPI formData) = 10"
    and "whereDocs (\<lambda>p. name p = Some (referringProvider formData)) provs = (j, e) # later"
    and "npi e \<noteq> Some (providerNPI formData)"
    and "providerChecks toLowerCase provs formData = Some pw"
  shows "npiMismatch \<in> set pw"
  using assms
  by (auto simp: providerChecks_def npiMismatch_def Let_def split: list.splits option.splits)

lemma providerChecks_name_error:
  assumes "referringProvider formData \<noteq> []" "providerNPI formData \<noteq> []"
    "length (providerNPI formData) = 10"
    and "whereDocs (\<lambda>p. npi p = Some (providerNPI formData)) provs = (j, e) # later"
    and "name e = Some n" "toLowerCase n \<noteq> toLowerCase (referringProvider formData)"
    and "providerChecks toLowerCase provs formData = Some pw"
  shows "providerNameMismatch \<in> set pw"
  using assms
  by (auto simp: providerChecks_def providerNameMismatch_def Let_def split: list.splits)

text \<open>
  Claim C10. Each of the four identity checks of \<open>checkDuplicates\<close> compares the
  submission with the first document of its query result only: when the first order with
  the submitted MRN carries the submitted name, the first order with the submitted name
  the submitted MRN, the first provider with the submitted name the submitted NPI and the
  first provider with the submitted NPI the submitted name, then no blocking error is
  emitted, whatever the later documents of the four results (\<open>rest1\<close> to \<open>rest4\<close>) hold.
  And in any store in which the first document of one of the four results contradicts the
  submission, the error of that check is among the blocking errors, whatever the later
  documents hold.
\<close>

theorem identity_checks_read_first_match:
  assumes mrn: "whereDocs (\<lambda>d. patientMRN d = patientMRN formData) (orders db) = (i1, d1) # rest1"
    and mrnFirst: "toLowerCase (patientFirstName d1) = toLowerCase (patientFirstName formData)"
      "toLowerCase (patientLastName d1) = toLowerCase (patientLastName formData)"
    and nm: "whereDocs (\<lambda>d. patientFirstName d = patientFirstName formData
                            \<and> patientLastName d = patientLastName formData) (orders db)
             = (i2, d2) # rest2"
    and nmFirst: "patientMRN d2 = patientMRN formData"
    and pn: "whereDocs (\<lambda>p. name p = Some (referringProvider formData)) (providers db)
             = (i3, p3) # rest3"
    and pnFirst: "npi p3 = Some (providerNPI formData)"
    and np: "whereDocs (\<lambda>p. npi p = Some (providerNPI formData)) (providers db)
             = (i4, p4) # rest4"
    and npFirst: "name p4 = Some n4" "toLowerCase n4 = toLowerCase (referringProvider formData)"
  shows "(\<exists>ws. checkDuplicates toLowerCase toLocaleDateString (Some db) formData = Some ws
              \<and> blocking ws = [])
         \<and> (\<forall>other ws j e later.
              checkDuplicates toLowerCase toLocaleDateString (Some other) formData = Some ws
              \<and> patientMRN formData \<noteq> [] \<and> length (patientMRN formData) = 6
              \<and> patientFirstName formData \<noteq> [] \<and> patientLastName formData \<noteq> []
              \<and> whereDocs (\<lambda>d. patientMRN d = patientMRN formData) (orders other) = (j, e) # later
              \<and> (toLowerCase (patientFirstName e) \<noteq> toLowerCase (patientFirstName formData)
                  \<or> toLowerCase (patientLastName e) \<noteq> toLowerCase (patientLastName formData))
              \<longrightarrow> mrnMismatch \<in> set (blocking ws))
         \<and> (\<forall>other ws j e later.
              checkDuplicates toLowerCase toLocaleDateString (Some other) formData = Some ws
              \<and> patientMRN formData \<noteq> [] \<and> length (patientMRN formData) = 6
              \<and> patientFirstName formData \<noteq> [] \<and> patientLastName formData \<noteq> []
              \<and> whereDocs (\<lambda>d. patientFirstName d = patientFirstName formData
                                \<and> patientLastName d = patientLastName formData) (orders other)
                  = (j, e) # later
              \<and> patientMRN e \<noteq> patientMRN formData
              \<longrightarrow> patientNameMismatch \<in> set (blocking ws))
         \<and> (\<forall>other ws j e later.
              checkDuplicates toLowerCase toLocaleDateString (Some other) formData = Some ws
              \<and> referringProvider formData \<noteq> [] \<and> providerNPI formData \<noteq> []
              \<and> length (providerNPI formData) = 10
              \<and> whereDocs (\<lambda>p. name p = Some (referringProvider formData)) (providers other)
                  = (j, e) # later
              \<and> npi e \<noteq> Some (providerNPI formData)
              \<longrightarrow> npiMismatch \<in> set (blocking ws))
         \<and> (\<forall>other ws j e later n.
              checkDuplicates toLowerCase toLocaleDateString (Some other) formData = Some ws
              \<and> referringProvider formData \<noteq> [] \<and> providerNPI formData \<noteq> []
              \<and> length (providerNPI formData) = 10
              \<and> whereDocs (\<lambda>p. npi p = Some (providerNPI formData)) (providers other)
                  = (j, e) # later
              \<and> name e = Some n
              \<and> toLowerCase n \<noteq> toLowerCase (referringProvider formData)
              \<longrightarrow> providerNameMismatch \<in> set (blocking ws))"
proof -
  have a: "blocking (patientChecks toLowerCase (orders db) formData) = []"
    using mrn mrnFirst nm nmFirst by (simp add: patientChecks_def blocking_def)
  have b: "\<exists>pw. providerChecks toLowerCase (providers db) formData = Some pw \<and> blocking pw = []"
    using pn pnFirst np npFirst by (simp add: providerChecks_def blocking_def Let_def)
  then obtain pw where pw: "providerChecks toLowerCase (providers db) formData = Some pw"
    "blocking pw = []" by blast
  have first: "\<exists>ws. checkDuplicates toLowerCase toLocaleDateString (Some db) formData = Some ws
              \<and> blocking ws = []"
    using a pw by (simp add: checkDuplicates_def)
  have sev: "severity mrnMismatch = SevError" "severity patientNameMismatch = SevError"
    "severity npiMismatch = SevError" "severity providerNameMismatch = SevError"
    by (simp_all add: mrnMismatch_def patientNameMismatch_def npiMismatch_def
        providerNameMismatch_def)
  have c1: "mrnMismatch \<in> set (blocking ws)"
    if "checkDuplicates toLowerCase toLocaleDateString (Some other) formData = Some ws"
      "patientMRN formData \<noteq> []" "length (patientMRN formData) = 6"
      "patientFirstName formData \<noteq> []" "patientLastName formData \<noteq> []"
      "whereDocs (\<lambda>d. patientMRN d = patientMRN formData) (orders other) = (j, e) # later"
      "toLowerCase (patientFirstName e) \<noteq> toLowerCase (patientFirstName formData)
       \<or> toLowerCase (patientLastName e) \<noteq> toLowerCase (patientLastName formData)"
    for other ws j e later
  proof -
    from checkDuplicates_Some[OF that(1)] obtain qw where
      ws: "ws = patientChecks toLowerCase (orders other) formData
                @ duplicateOrderCheck toLocaleDateString (orders other) formData @ qw"
      by blast
    from patientChecks_mrn_error[OF that(2-7)] ws have "mrnMismatch \<in> set ws" by simp
    then show ?thesis using sev(1) by (rule blocking_member)
  qed
  have c2: "patientNameMismatch \<in> set (blocking ws)"
    if "checkDuplicates toLowerCase toLocaleDateString (Some other) formData = Some ws"
      "patientMRN formData \<noteq> []" "length (patientMRN formData) = 6"
      "patientFirstName formData \<noteq> []" "patientLastName formData \<noteq> []"
      "whereDocs (\<lambda>d. patientFirstName d = patientFirstName formData
                        \<and> patientLastName d = patientLastName formData) (orders other)
         = (j, e) # later"
      "patientMRN e \<noteq> patientMRN formData"
    for other ws j e later
  proof -
    from checkDuplicates_Some[OF that(1)] obtain qw where
      ws: "ws = patientChecks toLowerCase (orders other) formData
                @ duplicateOrderCheck toLocaleDateString (orders other) formData @ qw"
      by blast
    from patientChecks_name_error[OF that(2-7)] ws have "patientNameMismatch \<in> set ws" by simp
    then show ?thesis using sev(2) by (rule blocking_member)
  qed
  have c3: "npiMismatch \<in> set (blocking ws)"
    if "checkDuplicates toLowerCase toLocaleDateString (Some other) formData = Some ws"
      "referringProvider formData \<noteq> []" "providerNPI formData \<noteq> []"
      "length (providerNPI formData) = 10"
      "whereDocs (\<lambda>p. name p = Some (referringProvider formData)) (providers other)
         = (j, e) # later"
      "npi e \<noteq> Some (providerNPI formData)"
    for other ws j e later
  proof -
    from checkDuplicates_Some[OF that(1)] obtain qw where
      qw: "providerChecks toLowerCase (providers other) formData = Some qw"
      and ws: "ws = patientChecks toLowerCase (orders other) formData
                @ duplicateOrderCheck toLocaleDateString (orders other) formData @ qw"
      by blast
    from providerChecks_npi_error[OF that(2-6) qw] ws have "npiMismatch \<in> set ws" by simp
    then show ?thesis using sev(3) by (rule blocking_member)
  qed
  have c4: "providerNameMismatch \<in> set (blocking ws)"
    if "checkDuplicates toLowerCase toLocaleDateString (Some other) formData = Some ws"
      "referringProvider formData \<noteq> []" "providerNPI formData \<noteq> []"
      "length (providerNPI formData) = 10"
      "whereDocs (\<lambda>p. npi p = Some (providerNPI formData)) (providers other)
         = (j, e) # later"
      "name e = Some n"
      "toLowerCase n \<noteq> toLowerCase (referringProvider formData)"
    for other ws j e later n
  proof -
    from checkDuplicates_Some[OF that(1)] obtain qw where
      qw: "providerChecks toLowerCase (providers other) formData = Some qw"
      and ws: "ws = patientChecks toLowerCase (orders other) formData
                @ duplicateOrderCheck toLocaleDateString (orders other) formData @ qw"
      by blast
    from providerChecks_name_error[OF that(2-7) qw] ws have "providerNameMismatch \<in> set ws"
      by simp
    then show ?thesis using sev(4) by (rule blocking_member)
  qed
  show ?thesis
    apply (intro conjI allI impI)
        apply (rule first)
       apply (elim conjE, rule c1, assumption+)
      apply (elim conjE, rule c2, assumption+)
     apply (elim conjE, rule c3, assumption+)
    apply (elim conjE, rule c4, assumption+)
    done
qed

lemmas example_defs = legacyDb_def order2_def order3_def otherForm_def validForm_def newOrder_def
  FormData.defs Order.defs whereDocs_def

text \<open>
  With the documents of \<open>legacyDb\<close> in the reverse order the first match of every query
  contradicts the submission, and all four errors are emitted.
\<close>

lemma identity_checks_depend_on_order:
  "checkDuplicates latin1Lower exampleLocale (Some reversedLegacyDb) validForm
     = Some [mrnMismatch, patientNameMismatch, npiMismatch, providerNameMismatch]"
proof -
  have s: "str ''123456'' \<noteq> str ''654321''" "str ''John'' \<noteq> str ''Jane''"
    "str ''1234567890'' \<noteq> str ''9999999999''" "str ''Dr. Sarah Smith'' \<noteq> str ''Dr. Alan Jones''"
    "str ''Doe'' \<noteq> str ''Roe''" "latin1Lower (str ''Jane'') \<noteq> latin1Lower (str ''John'')"
    "latin1Lower (str ''Dr. Alan Jones'') \<noteq> latin1Lower (str ''Dr. Sarah Smith'')"
    "str ''John'' \<noteq> []" "str ''Doe'' \<noteq> []" "str ''123456'' \<noteq> []"
    "length (str ''123456'') = 6" "length (str ''1234567890'') = 10"
    "str ''Dr. Sarah Smith'' \<noteq> []" "str ''1234567890'' \<noteq> []"
    "str ''Privigen'' \<noteq> str ''Albuterol''"
    by (simp_all add: str_def latin1Lower_def latin1LowerUnit_def isUpper_def)
  show ?thesis
    using s
    by (simp add: checkDuplicates_def patientChecks_def providerChecks_def
        duplicateOrderCheck_def Let_def example_defs reversedLegacyDb_def mrnMismatch_def
        patientNameMismatch_def npiMismatch_def providerNameMismatch_def)
qed

text \<open>
  Witness for C10: in \<open>legacyDb\<close> a later document of each of the four query results
  contradicts the submission \<open>validForm\<close>, the first one agrees, and no blocking error is
  emitted. In \<open>reversedLegacyDb\<close> the first document of each result contradicts the
  submission and each of the four errors is among the blocking errors.
\<close>

theorem identity_checks_read_first_match_witness:
  "map (\<lambda>(i, d). (patientFirstName d, patientLastName d, patientMRN d)) (orders legacyDb)
     = [(str ''John'', str ''Doe'', str ''123456''), (str ''Jane'', str ''Roe'', str ''123456''),
        (str ''John'', str ''Doe'', str ''654321'')]
   \<and> map (\<lambda>(i, p). (name p, npi p)) (providers legacyDb)
     = [(Some (str ''Dr. Sarah Smith''), Some (str ''1234567890'')),
        (Some (str ''Dr. Sarah Smith''), Some (str ''9999999999'')),
        (Some (str ''Dr. Alan Jones''), Some (str ''1234567890''))]
   \<and> (patientFirstName validForm, patientLastName validForm, patientMRN validForm,
       referringProvider validForm, providerNPI validForm)
     = (str ''John'', str ''Doe'', str ''123456'', str ''Dr. Sarah Smith'', str ''1234567890'')
   \<and> (\<exists>ws. checkDuplicates latin1Lower exampleLocale (Some legacyDb) validForm = Some ws
            \<and> blocking ws = [])
   \<and> (\<exists>ws. checkDuplicates latin1Lower exampleLocale (Some reversedLegacyDb) validForm = Some ws
            \<and> mrnMismatch \<in> set (blocking ws) \<and> patientNameMismatch \<in> set (blocking ws)
            \<and> npiMismatch \<in> set (blocking ws) \<and> providerNameMismatch \<in> set (blocking ws))"
proof -
  have s: "str ''123456'' \<noteq> str ''654321''" "str ''John'' \<noteq> str ''Jane''"
    "str ''1234567890'' \<noteq> str ''9999999999''" "str ''Dr. Sarah Smith'' \<noteq> str ''Dr. Alan Jones''"
    "str ''Doe'' \<noteq> str ''Roe''"
    by (simp_all add: str_def)
  have 1: "whereDocs (\<lambda>d. patientMRN d = patientMRN validForm) (orders legacyDb)
            = (''order1'', newOrder otherForm (str ''PLAN 1'') 1000) # [(''order2'', order2)]"
    using s by (simp add: example_defs)
  have 2: "whereDocs (\<lambda>d. patientFirstName d = patientFirstName validForm
                            \<and> patientLastName d = patientLastName validForm) (orders legacyDb)
            = (''order1'', newOrder otherForm (str ''PLAN 1'') 1000) # [(''order3'', order3)]"
    using s by (simp add: example_defs)
  have 3: "whereDocs (\<lambda>p. name p = Some (referringProvider validForm)) (providers legacyDb)
            = (''provider1'', \<lparr>name = Some (str ''Dr. Sarah Smith''),
                                    npi = Some (str ''1234567890''),
                                    firstOrderDate = Some 1000, orderCount = Some 1\<rparr>)
              # [(''provider2'', \<lparr>name = Some (str ''Dr. Sarah Smith''),
                                    npi = Some (str ''9999999999''),
                                    firstOrderDate = Some 1100, orderCount = Some 1\<rparr>)]"
    using s by (simp add: example_defs)
  have 4: "whereDocs (\<lambda>p. npi p = Some (providerNPI validForm)) (providers legacyDb)
            = (''provider1'', \<lparr>name = Some (str ''Dr. Sarah Smith''),
                                    npi = Some (str ''1234567890''),
                                    firstOrderDate = Some 1000, orderCount = Some 1\<rparr>)
              # [(''provider3'', \<lparr>name = Some (str ''Dr. Alan Jones''),
                                    npi = Some (str ''1234567890''),
                                    firstOrderDate = Some 1200, orderCount = Some 1\<rparr>)]"
    using s by (simp add: example_defs)
  have f: "latin1Lower (patientFirstName (newOrder otherForm (str ''PLAN 1'') 1000))
             = latin1Lower (patientFirstName validForm)"
    "latin1Lower (patientLastName (newOrder otherForm (str ''PLAN 1'') 1000))
       = latin1Lower (patientLastName validForm)"
    "patientMRN (newOrder otherForm (str ''PLAN 1'') 1000) = patientMRN validForm"
    by (simp_all add: example_defs)
  have g: "npi \<lparr>name = Some (str ''Dr. Sarah Smith''), npi = Some (str ''1234567890''),
                firstOrderDate = Some 1000, orderCount = Some 1\<rparr> = Some (providerNPI validForm)"
    "name \<lparr>name = Some (str ''Dr. Sarah Smith''), npi = Some (str ''1234567890''),
                firstOrderDate = Some 1000, orderCount = Some 1\<rparr> = Some (str ''Dr. Sarah Smith'')"
    "latin1Lower (str ''Dr. Sarah Smith'') = latin1Lower (referringProvider validForm)"
    by (simp_all add: example_defs)
  note all = identity_checks_read_first_match[OF 1 f(1) f(2) 2 f(3) 3 g(1) 4 g(2) g(3),
      where toLocaleDateString = exampleLocale]
  from all have r: "\<exists>ws. checkDuplicates latin1Lower exampleLocale (Some legacyDb) validForm = Some ws
            \<and> blocking ws = []"
    by (rule conjunct1)
  let ?four = "[mrnMismatch, patientNameMismatch, npiMismatch, providerNameMismatch]"
  note ev = identity_checks_depend_on_order
  have v: "patientMRN validForm \<noteq> []" "length (patientMRN validForm) = 6"
    "patientFirstName validForm \<noteq> []" "patientLastName validForm \<noteq> []"
    "referringProvider validForm \<noteq> []" "providerNPI validForm \<noteq> []"
    "length (providerNPI validForm) = 10"
    by (simp_all add: validForm_def str_def)
  have h1: "whereDocs (\<lambda>d. patientMRN d = patientMRN validForm) (orders reversedLegacyDb)
            = (''order2'', order2) # [(''order1'', newOrder otherForm (str ''PLAN 1'') 1000)]"
    using s by (simp add: example_defs reversedLegacyDb_def)
  have m1: "latin1Lower (patientFirstName order2) \<noteq> latin1Lower (patientFirstName validForm)"
    by (simp add: example_defs latin1Lower_def latin1LowerUnit_def isUpper_def str_def)
  have h2: "whereDocs (\<lambda>d. patientFirstName d = patientFirstName validForm
                            \<and> patientLastName d = patientLastName validForm)
              (orders reversedLegacyDb)
            = (''order3'', order3) # [(''order1'', newOrder otherForm (str ''PLAN 1'') 1000)]"
    using s by (simp add: example_defs reversedLegacyDb_def)
  have m2: "patientMRN order3 \<noteq> patientMRN validForm"
    using s by (simp add: example_defs)
  have h3: "whereDocs (\<lambda>p. name p = Some (referringProvider validForm)) (providers reversedLegacyDb)
            = (''provider2'', \<lparr>name = Some (str ''Dr. Sarah Smith''),
                                    npi = Some (str ''9999999999''),
                                    firstOrderDate = Some 1100, orderCount = Some 1\<rparr>)
              # [(''provider1'', \<lparr>name = Some (str ''Dr. Sarah Smith''),
                                    npi = Some (str ''1234567890''),
                                    firstOrderDate = Some 1000, orderCount = Some 1\<rparr>)]"
    using s by (simp add: example_defs reversedLegacyDb_def)
  have m3: "npi \<lparr>name = Some (str ''Dr. Sarah Smith''), npi = Some (str ''9999999999''),
                 firstOrderDate = Some 1100, orderCount = Some 1\<rparr> \<noteq> Some (providerNPI validForm)"
    using s by (simp add: example_defs)
  have h4: "whereDocs (\<lambda>p. npi p = Some (providerNPI validForm)) (providers reversedLegacyDb)
            = (''provider3'', \<lparr>name = Some (str ''Dr. Alan Jones''),
                                    npi = Some (str ''1234567890''),
                                    firstOrderDate = Some 1200, orderCount = Some 1\<rparr>)
              # [(''provider1'', \<lparr>name = Some (str ''Dr. Sarah Smith''),
                                    npi = Some (str ''1234567890''),
                                    firstOrderDate = Some 1000, orderCount = Some 1\<rparr>)]"
    using s by (simp add: example_defs reversedLegacyDb_def)
  have m4: "name \<lparr>name = Some (str ''Dr. Alan Jones''), npi = Some (str ''1234567890''),
                  firstOrderDate = Some 1200, orderCount = Some 1\<rparr> = Some (str ''Dr. Alan Jones'')"
    "latin1Lower (str ''Dr. Alan Jones'') \<noteq> latin1Lower (referringProvider validForm)"
    by (simp_all add: example_defs latin1Lower_def latin1LowerUnit_def isUpper_def str_def)
  have e1: "mrnMismatch \<in> set (blocking ?four)"
    by (rule all[THEN conjunct2, THEN conjunct1, rule_format,
          where other = reversedLegacyDb and j = "''order2''" and e = order2
            and later = "[(''order1'', newOrder otherForm (str ''PLAN 1'') 1000)]"])
       (use ev v h1 m1 in blast)
  have e2: "patientNameMismatch \<in> set (blocking ?four)"
    by (rule all[THEN conjunct2, THEN conjunct2, THEN conjunct1, rule_format,
          where other = reversedLegacyDb and j = "''order3''" and e = order3
            and later = "[(''order1'', newOrder otherForm (str ''PLAN 1'') 1000)]"])
       (use ev v h2 m2 in blast)
  have e3: "npiMismatch \<in> set (blocking ?four)"
    by (rule all[THEN conjunct2, THEN conjunct2, THEN conjunct2, THEN conjunct1, rule_format,
          where other = reversedLegacyDb and j = "''provider2''"
            and e = "\<lparr>name = Some (str ''Dr. Sarah Smith''), npi = Some (str ''9999999999''),
                      firstOrderDate = Some 1100, orderCount = Some 1\<rparr>"
            and later = "[(''provider1'', \<lparr>name = Some (str ''Dr. Sarah Smith''),
                                    npi = Some (str ''1234567890''),
                                    firstOrderDate = Some 1000, orderCount = Some 1\<rparr>)]"])
       (use ev v h3 m3 in blast)
  have e4: "providerNameMismatch \<in> set (blocking ?four)"
    by (rule all[THEN conjunct2, THEN conjunct2, THEN conjunct2, THEN conjunct2, rule_format,
          where other = reversedLegacyDb and j = "''provider3''"
            and e = "\<lparr>name = Some (str ''Dr. Alan Jones''), npi = Some (str ''1234567890''),
                      firstOrderDate = Some 1200, orderCount = Some 1\<rparr>"
            and later = "[(''provider1'', \<lparr>name = Some (str ''Dr. Sarah Smith''),
                                    npi = Some (str ''1234567890''),
                                    firstOrderDate = Some 1000, orderCount = Some 1\<rparr>)]"
            and n = "str ''Dr. Alan Jones''"])
       (use ev v h4 m4 in blast)
  have rv: "\<exists>ws. checkDuplicates latin1Lower exampleLocale (Some reversedLegacyDb) validForm = Some ws
            \<and> mrnMismatch \<in> set (blocking ws) \<and> patientNameMismatch \<in> set (blocking ws)
            \<and> npiMismatch \<in> set (blocking ws) \<and> providerNameMismatch \<in> set (blocking ws)"
    using ev e1 e2 e3 e4 by blast
  have d: "map (\<lambda>(i, d). (patientFirstName d, patientLastName d, patientMRN d)) (orders legacyDb)
     = [(str ''John'', str ''Doe'', str ''123456''), (str ''Jane'', str ''Roe'', str ''123456''),
        (str ''John'', str ''Doe'', str ''654321'')]"
    "map (\<lambda>(i, p). (name p, npi p)) (providers legacyDb)
     = [(Some (str ''Dr. Sarah Smith''), Some (str ''1234567890'')),
        (Some (str ''Dr. Sarah Smith''), Some (str ''9999999999'')),
        (Some (str ''Dr. Alan Jones''), Some (str ''1234567890''))]"
    "(patientFirstName validForm, patientLastName validForm, patientMRN validForm,
       referringProvider validForm, providerNPI validForm)
     = (str ''John'', str ''Doe'', str ''123456'', str ''Dr. Sarah Smith'', str ''1234567890'')"
    by (simp_all add: example_defs)
  from d r rv show ?thesis by blast
qed

subsection \<open>The exact duplicate\<close>

lemma exact_match_found:
  assumes ex: "(i, existing) \<in> set (orders db)"
    and keys: "patientMRN existing = patientMRN formData"
      "medicationName existing = medicationName formData"
      "primaryDiagnosis existing = primaryDiagnosis formData"
      "providerNPI existing = providerNPI formData"
  shows "\<exists>j prior. checkForExactDuplicate (Some db) formData = Some (j, prior)"
proof -
  let ?snap = "whereDocs (\<lambda>d. patientMRN d = patientMRN formData
                                 \<and> medicationName d = medicationName formData) (orders db)"
  let ?P = "\<lambda>(i, d). primaryDiagnosis d = primaryDiagnosis formData
                         \<and> providerNPI d = providerNPI formData"
  have mem: "(i, existing) \<in> set ?snap"
    using ex keys by (simp add: whereDocs_def)
  then have ne: "?snap \<noteq> []" by auto
  have "find ?P ?snap \<noteq> None"
    using mem keys by (auto simp: find_None_iff)
  then obtain x where "find ?P ?snap = Some x" by blast
  then show ?thesis
    using ne by (cases x) (simp add: checkForExactDuplicate_def Let_def)
qed

lemma duplicateOrderCheck_eq:
  assumes "checkForExactDuplicate (Some db) formData = Some (j, prior)"
    and "length (patientMRN formData) = 6" "length (providerNPI formData) = 10"
      "medicationName formData \<noteq> []" "primaryDiagnosis formData \<noteq> []"
  shows "duplicateOrderCheck toLocaleDateString (orders db) formData
           = [duplicateWarning toLocaleDateString prior]"
proof -
  have ne: "patientMRN formData \<noteq> []" "providerNPI formData \<noteq> []"
    using assms(2,3) by auto
  show ?thesis
    using assms ne
    by (simp add: duplicateOrderCheck_def checkForExactDuplicate_def Let_def split: if_splits)
qed

text \<open>
  Claim C5. When a stored order shares MRN, medication name, primary diagnosis and
  provider NPI with a submission whose MRN has six and whose NPI has ten characters, the
  duplicate check of \<open>checkDuplicates\<close> emits one warning of severity \<open>warning\<close> and
  subject \<open>order\<close>, whose message names the date of the prior order (the first such
  order of the query result), and no error; the warnings of \<open>checkDuplicates\<close> are those
  of the patient checks, this warning and those of the provider checks. On submit, with
  no validation error and no blocking error among the warnings, \<open>handleSubmit\<close> ends in
  the duplicate prompt for that order and leaves the database as it was.
\<close>

theorem exact_duplicate_warns_and_prompts:
  assumes ex: "(i, existing) \<in> set (orders db)"
    and keys: "patientMRN existing = patientMRN formData"
      "medicationName existing = medicationName formData"
      "primaryDiagnosis existing = primaryDiagnosis formData"
      "providerNPI existing = providerNPI formData"
    and shape: "length (patientMRN formData) = 6" "length (providerNPI formData) = 10"
      "medicationName formData \<noteq> []" "primaryDiagnosis formData \<noteq> []"
  shows "\<exists>j prior.
           checkForExactDuplicate (Some db) formData = Some (j, prior)
           \<and> (j, prior) \<in> set (orders db)
           \<and> patientMRN prior = patientMRN formData
           \<and> medicationName prior = medicationName formData
           \<and> primaryDiagnosis prior = primaryDiagnosis formData
           \<and> providerNPI prior = providerNPI formData
           \<and> duplicateOrderCheck toLocaleDateString (orders db) formData
               = [\<lparr>w_type = OrderWarning,
                   message = str ''POTENTIAL DUPLICATE: A similar order exists from ''
                             @ (case timestamp prior of
                                  None \<Rightarrow> str ''Unknown date''
                                | Some orderDate \<Rightarrow> toLocaleDateString orderDate)
                             @ str ''. You'll be prompted to update or create new when submitting.'',
                   severity = SevWarning\<rparr>]
           \<and> checkDuplicates toLowerCase toLocaleDateString (Some db) formData
               = map_option
                   (\<lambda>providerWarnings.
                      patientChecks toLowerCase (orders db) formData
                      @ duplicateOrderCheck toLocaleDateString (orders db) formData
                      @ providerWarnings)
                   (providerChecks toLowerCase (providers db) formData)
           \<and> (formErrors formData = [] \<and> blocking warnings = [] \<longrightarrow>
                handleSubmit post now orderId patientId providerId (Some db) warnings formData
                  = (DuplicatePrompt (j, prior), Some db))"
proof -
  from exact_match_found[OF ex keys]
  obtain j prior where found: "checkForExactDuplicate (Some db) formData = Some (j, prior)"
    by blast
  note props = checkForExactDuplicate_Some[OF found]
  have warn: "duplicateOrderCheck toLocaleDateString (orders db) formData
               = [duplicateWarning toLocaleDateString prior]"
    by (rule duplicateOrderCheck_eq[OF found shape])
  have all: "checkDuplicates toLowerCase toLocaleDateString (Some db) formData
               = map_option
                   (\<lambda>providerWarnings.
                      patientChecks toLowerCase (orders db) formData
                      @ duplicateOrderCheck toLocaleDateString (orders db) formData
                      @ providerWarnings)
                   (providerChecks toLowerCase (providers db) formData)"
    by (simp add: checkDuplicates_def split: option.splits)
  have submit: "formErrors formData = [] \<and> blocking warnings = [] \<longrightarrow>
                handleSubmit post now orderId patientId providerId (Some db) warnings formData
                  = (DuplicatePrompt (j, prior), Some db)"
    using found by (simp add: handleSubmit_def Let_def blocking_def)
  show ?thesis
    apply (rule exI[of _ j])
    apply (rule exI[of _ prior])
    using found props warn all submit
    by (simp add: duplicateWarning_def Let_def)
qed

text \<open>
  Witness for C5: the order of \<open>exampleDb\<close> has MRN 123456, medication Privigen, diagnosis
  G70.0 and NPI 1234567890; resubmitting \<open>validForm\<close> with the same four keys gives the
  one warning and, on submit, the prompt.
\<close>

theorem exact_duplicate_warns_and_prompts_witness:
  "(''order1'', storedOrder) \<in> set (orders exampleDb)
   \<and> (patientMRN storedOrder, medicationName storedOrder, primaryDiagnosis storedOrder,
       providerNPI storedOrder)
     = (str ''123456'', str ''Privigen'', str ''G70.0'', str ''1234567890'')
   \<and> (patientMRN validForm, medicationName validForm, primaryDiagnosis validForm,
       providerNPI validForm)
     = (str ''123456'', str ''Privigen'', str ''G70.0'', str ''1234567890'')
   \<and> checkDuplicates latin1Lower exampleLocale (Some exampleDb) validForm
     = Some [\<lparr>w_type = OrderWarning,
              message = str ''POTENTIAL DUPLICATE: A similar order exists from day 0. You'll be prompted to update or create new when submitting.'',
              severity = SevWarning\<rparr>]
   \<and> formErrors validForm = [] \<and> blocking [] = []
   \<and> handleSubmit okBackend 2000 ''order2'' ''patient2'' ''provider2'' (Some exampleDb) [] validForm
     = (DuplicatePrompt (''order1'', storedOrder), Some exampleDb)"
proof -
  have ex: "(''order1'', storedOrder) \<in> set (orders exampleDb)"
    by (simp add: exampleDb_def)
  have k1: "patientMRN storedOrder = patientMRN validForm"
    "medicationName storedOrder = medicationName validForm"
    "primaryDiagnosis storedOrder = primaryDiagnosis validForm"
    "providerNPI storedOrder = providerNPI validForm"
    by (simp_all add: storedOrder_def newOrder_def FormData.defs Order.defs)
  have v: "patientMRN validForm = str ''123456''" "medicationName validForm = str ''Privigen''"
    "primaryDiagnosis validForm = str ''G70.0''" "providerNPI validForm = str ''1234567890''"
    "patientFirstName validForm = str ''John''" "patientLastName validForm = str ''Doe''"
    "referringProvider validForm = str ''Dr. Sarah Smith''"
    by (simp_all add: validForm_def)
  have shape: "length (patientMRN validForm) = 6" "length (providerNPI validForm) = 10"
    "medicationName validForm \<noteq> []" "primaryDiagnosis validForm \<noteq> []"
    by (simp_all add: v str_def)
  have b: "blocking [] = []" by (simp add: blocking_def)
  have pc: "patientChecks latin1Lower (orders exampleDb) validForm = []"
    by (simp add: patientChecks_def exampleDb_def whereDocs_def k1 storedOrder_def newOrder_def
        FormData.defs Order.defs)
  have pr: "providerChecks latin1Lower (providers exampleDb) validForm = Some []"
    by (simp add: providerChecks_def exampleDb_def whereDocs_def v Let_def)
  have ts: "timestamp storedOrder = Some 1000"
    by (simp add: storedOrder_def newOrder_fields)
  have day: "exampleLocale 1000 = str ''day 0''"
    by (simp add: exampleLocale_def str_def decimal.simps)
  from exact_duplicate_warns_and_prompts[OF ex k1 shape, where toLocaleDateString = exampleLocale
      and toLowerCase = latin1Lower and warnings = "[]" and post = okBackend and now = 2000
      and orderId = "''order2''" and patientId = "''patient2''" and providerId = "''provider2''"]
  obtain j prior where r:
    "checkForExactDuplicate (Some exampleDb) validForm = Some (j, prior)"
    "duplicateOrderCheck exampleLocale (orders exampleDb) validForm
               = [\<lparr>w_type = OrderWarning,
                   message = str ''POTENTIAL DUPLICATE: A similar order exists from ''
                             @ (case timestamp prior of
                                  None \<Rightarrow> str ''Unknown date''
                                | Some orderDate \<Rightarrow> exampleLocale orderDate)
                             @ str ''. You'll be prompted to update or create new when submitting.'',
                   severity = SevWarning\<rparr>]"
    "checkDuplicates latin1Lower exampleLocale (Some exampleDb) validForm
               = map_option
                   (\<lambda>providerWarnings.
                      patientChecks latin1Lower (orders exampleDb) validForm
                      @ duplicateOrderCheck exampleLocale (orders exampleDb) validForm
                      @ providerWarnings)
                   (providerChecks latin1Lower (providers exampleDb) validForm)"
    "formErrors validForm = [] \<and> blocking [] = [] \<longrightarrow>
                handleSubmit okBackend 2000 ''order2'' ''patient2'' ''provider2'' (Some exampleDb) [] validForm
                  = (DuplicatePrompt (j, prior), Some exampleDb)"
    by blast
  from r(1) exampleDb_duplicate have jp: "j = ''order1''" "prior = storedOrder" by simp_all
  have w: "checkDuplicates latin1Lower exampleLocale (Some exampleDb) validForm
     = Some [\<lparr>w_type = OrderWarning,
              message = str ''POTENTIAL DUPLICATE: A similar order exists from day 0. You'll be prompted to update or create new when submitting.'',
              severity = SevWarning\<rparr>]"
    using r(2,3) jp pc pr ts day by (simp add: str_def)
  have h: "handleSubmit okBackend 2000 ''order2'' ''patient2'' ''provider2'' (Some exampleDb) [] validForm
     = (DuplicatePrompt (''order1'', storedOrder), Some exampleDb)"
    using r(4) jp validForm_ok(2) b by simp
  from ex k1 v w h validForm_ok(2) b show ?thesis by simp
qed

subsection \<open>The export filter\<close>

lemma startsWith_iff: "startsWith hay needle \<longleftrightarrow> (\<exists>post. hay = needle @ post)"
  by (induction hay needle rule: startsWith.induct) auto

lemma includesStr_iff: "includesStr hay needle \<longleftrightarrow> (\<exists>pre post. hay = pre @ needle @ post)"
proof (induction hay)
  case Nil
  then show ?case by auto
next
  case (Cons h hs)
  have "(\<exists>pre post. h # hs = pre @ needle @ post)
        \<longleftrightarrow> (\<exists>post. h # hs = needle @ post) \<or> (\<exists>pre post. hs = pre @ needle @ post)"
  proof
    assume "\<exists>pre post. h # hs = pre @ needle @ post"
    then obtain pre post where e: "h # hs = pre @ needle @ post" by blast
    show "(\<exists>post. h # hs = needle @ post) \<or> (\<exists>pre post. hs = pre @ needle @ post)"
    proof (cases pre)
      case Nil
      with e show ?thesis by auto
    next
      case (Cons p ps)
      with e have "hs = ps @ needle @ post" by simp
      then show ?thesis by blast
    qed
  next
    assume "(\<exists>post. h # hs = needle @ post) \<or> (\<exists>pre post. hs = pre @ needle @ post)"
    then show "\<exists>pre post. h # hs = pre @ needle @ post"
    proof
      assume "\<exists>post. h # hs = needle @ post"
      then obtain post where "h # hs = [] @ needle @ post" by auto
      then show ?thesis by blast
    next
      assume "\<exists>pre post. hs = pre @ needle @ post"
      then obtain pre post where "h # hs = (h # pre) @ needle @ post" by auto
      then show ?thesis by blast
    qed
  qed
  with Cons show ?case by (simp add: startsWith_iff)
qed

text \<open>
  The orders \<open>exportFilter\<close> selects: a date filter that is set asks for a timestamp not
  before the first millisecond of the start day and not after the start of the last second
  of the end day; a medication filter that is not blank asks for the filter text inside
  the medication name, both in lower case.
\<close>

lemma exportFilter_selects:
  "(i, d) \<in> set (exportFilter toLowerCase startDate endDate medFilter ords) \<longleftrightarrow>
     (i, d) \<in> set ords
     \<and> (case startDate of
          None \<Rightarrow> True
        | Some day \<Rightarrow> (case timestamp d of None \<Rightarrow> False | Some t \<Rightarrow> startOfDay day \<le> t))
     \<and> (case endDate of
          None \<Rightarrow> True
        | Some day \<Rightarrow> (case timestamp d of None \<Rightarrow> False | Some t \<Rightarrow> t \<le> endOfDay day))
     \<and> (trim medFilter = []
         \<or> includesStr (toLowerCase (medicationName d)) (toLowerCase medFilter))"
  using trim_nonempty[of medFilter]
  by (auto simp: exportFilter_def Let_def split: option.splits)

text \<open>The filter \<open>priv\<close> selects the order for Privigen and not the one for Albuterol.\<close>

lemma exportFilter_priv:
  "medicationName storedOrder = str ''Privigen'' \<and> medicationName albuterolOrder = str ''Albuterol''
   \<and> exportFilter latin1Lower None None (str ''priv'')
        [(''order1'', storedOrder), (''order2'', albuterolOrder)]
      = [(''order1'', storedOrder)]"
  by (simp add: exportFilter_def storedOrder_def albuterolOrder_def otherForm_def validForm_def
      newOrder_def FormData.defs Order.defs latin1Lower_def latin1LowerUnit_def char_defs)

text \<open>
  Claim C8 says that the export selects exactly the orders created on or before the end
  date (inclusive), among the other filters. The code at an order created on the end date:
  \<open>lateOrder\<close> was created on day 0, half a second before midnight; the export with end
  date day 0 and no other filter does not select it, the export with end date day 1 does.
\<close>

theorem exportFilter_drops_last_second:
  "timestamp lateOrder = Some 86399500
   \<and> startOfDay 0 \<le> 86399500 \<and> 86399500 < startOfDay 1
   \<and> exportFilter toLowerCase None (Some 0) [] [(''order1'', lateOrder)] = []
   \<and> exportFilter toLowerCase None (Some 1) [] [(''order1'', lateOrder)] = [(''order1'', lateOrder)]"
  by (simp add: lateOrder_def startOfDay_def endOfDay_def exportFilter_def)

end
